theory Spec2Isabelle
  imports Complex_Main "HOL-Library.Multiset"
begin

section \<open>JavaScript values and strings\<close>

text \<open>
  A JavaScript string is the list of its UTF-16 code units, each a natural number.
  \<open>js\<close> gives the code units of a string literal of the source; the characters of
  these literals are all below 256, where a character and its code unit agree.
\<close>

type_synonym jsstring = "nat list"

definition js :: "string \<Rightarrow> jsstring" where
  "js s = map of_char s"

text \<open>
  The request body is the JSON object that \<^verbatim>\<open>express.json()\<close> parsed: its values are
  null, booleans, numbers, strings, arrays and objects. Numbers are exact rationals
  (rounding of doubles, NaN and the infinities are outside the model). The handlers read
  the body under property names that are literals of the source; a name that the body
  does not have reads as \<open>Undefined\<close>, as a property access in JavaScript does.
\<close>

datatype jsval =
    Undefined
  | Null
  | Bool bool
  | Num rat
  | Str jsstring
  | Arr "jsval list"
  | Obj "(jsstring \<times> jsval) list"

type_synonym body = "string \<Rightarrow> jsval"

text \<open>A property of a parsed object: the last member of that name, as \<^verbatim>\<open>JSON.parse\<close> keeps it.\<close>

definition property :: "(jsstring \<times> jsval) list \<Rightarrow> jsstring \<Rightarrow> jsval" where
  "property kvs k = (case map_of (rev kvs) k of None \<Rightarrow> Undefined | Some v \<Rightarrow> v)"

text \<open>\<^verbatim>\<open>ToBoolean\<close>: what \<^verbatim>\<open>||\<close> and \<^verbatim>\<open>if\<close> test.\<close>

fun truthy :: "jsval \<Rightarrow> bool" where
  "truthy Undefined = False"
| "truthy Null = False"
| "truthy (Bool b) = b"
| "truthy (Num n) = (n \<noteq> 0)"
| "truthy (Str s) = (s \<noteq> [])"
| "truthy (Arr xs) = True"
| "truthy (Obj kvs) = True"

text \<open>\<^verbatim>\<open>a || b\<close>\<close>

definition js_or :: "jsval \<Rightarrow> jsval \<Rightarrow> jsval" where
  "js_or a b = (if truthy a then a else b)"

text \<open>
  \<^verbatim>\<open>String.prototype.trim\<close> removes the white space and the line terminators of the
  language from both ends.
\<close>

definition isWhiteSpace :: "nat \<Rightarrow> bool" where
  "isWhiteSpace c =
     (c \<in> {9, 10, 11, 12, 13, 32, 160, 5760, 8232, 8233, 8239, 8287, 12288, 65279}
      \<or> c \<in> {8192..8202})"

definition trim :: "jsstring \<Rightarrow> jsstring" where
  "trim s = rev (dropWhile isWhiteSpace (rev (dropWhile isWhiteSpace s)))"

text \<open>\<^verbatim>\<open>s.charAt(i)\<close> is the empty string out of range; \<^verbatim>\<open>s.slice(i)\<close> for \<open>i \<ge> 0\<close>.\<close>

definition charAt :: "jsstring \<Rightarrow> nat \<Rightarrow> jsstring" where
  "charAt s i = (if i < length s then [s ! i] else [])"

definition slice :: "jsstring \<Rightarrow> nat \<Rightarrow> jsstring" where
  "slice s i = drop i s"

section \<open>The parts of the platform taken as parameters\<close>

text \<open>
  The code relies on functions of JavaScript and of the store's driver that are not part
  of the repository. They are parameters of the model, and every theorem holds for each
  choice of them:
  \<^item> \<open>castObjectId\<close>: the cast of a request's id string to a store identifier; \<open>None\<close>
    is the \<^verbatim>\<open>CastError\<close> that \<^verbatim>\<open>findById\<close> raises on a malformed id;
  \<^item> \<open>numberToString\<close>: \<^verbatim>\<open>Number.prototype.toString\<close>;
  \<^item> \<open>stringToNumber\<close>: \<^verbatim>\<open>Number(s)\<close>, \<open>None\<close> for NaN;
  \<^item> \<open>toUpperCase\<close>: \<^verbatim>\<open>String.prototype.toUpperCase\<close>;
  \<^item> \<open>castMessage\<close>: the text of a failed cast, from the value and the path.
\<close>

record driver =
  castObjectId :: "jsstring \<Rightarrow> jsstring option"
  numberToString :: "rat \<Rightarrow> jsstring"
  stringToNumber :: "jsstring \<Rightarrow> rat option"
  toUpperCase :: "jsstring \<Rightarrow> jsstring"
  castMessage :: "jsval \<Rightarrow> string \<Rightarrow> jsstring"

section \<open>The Service schema\<close>

text \<open>
  The schema is \<^verbatim>\<open>serviceSchema\<close> of \<^verbatim>\<open>models/Service.js\<close>. Its options are read as
  the object-document mapper defines them: a value assigned to a path is cast to the
  type of the path and passed through the setters (\<^verbatim>\<open>trim\<close>), and a save validates
  every path with \<^verbatim>\<open>required\<close>, \<^verbatim>\<open>maxlength\<close>, \<^verbatim>\<open>min\<close> and \<^verbatim>\<open>enum\<close>.

  A document of the collection. \<open>None\<close> is a path that is null or not set.
  \<open>ident\<close> is \<^verbatim>\<open>_id\<close>; \<open>createdAt\<close> and \<open>updatedAt\<close> are the timestamps of
  \<^verbatim>\<open>timestamps: true\<close>, in milliseconds.
\<close>

record service =
  ident :: jsstring
  name :: "jsstring option"
  category :: "jsstring option"
  price :: "rat option"
  duration :: "jsstring option"
  status :: "jsstring option"
  description :: "jsstring option"
  clients :: "rat option"
  createdAt :: nat
  updatedAt :: nat

text \<open>
  An error of one path: the message of a failed validator of the schema, or a failed
  cast with the value that did not cast.
\<close>

datatype verror = ValidatorError jsstring | PathCastError jsval

text \<open>
  A document in memory: the values of its paths, and the cast errors that assignments
  have left pending on paths. Validation reports them.
\<close>

type_synonym document = "service \<times> (string \<times> verror) list"

text \<open>
  The casts of the schema types \<^verbatim>\<open>String\<close> and \<^verbatim>\<open>Number\<close>. A String path takes a
  string as it is, a number or a boolean by its \<^verbatim>\<open>toString\<close>, and an object by its
  \<^verbatim>\<open>_id\<close> when that is a non-empty string; it fails on an array and on any other
  object. A Number path takes a number as it is, a boolean as 0 or 1, the empty string
  as null and another string by \<^verbatim>\<open>Number\<close> unless that is NaN; it fails on arrays and
  objects.
\<close>

datatype 'a cast = CastOk "'a option" | CastFailed jsval

fun castString :: "driver \<Rightarrow> jsval \<Rightarrow> jsstring cast" where
  "castString drv Undefined = CastOk None"
| "castString drv Null = CastOk None"
| "castString drv (Str s) = CastOk (Some s)"
| "castString drv (Num n) = CastOk (Some (numberToString drv n))"
| "castString drv (Bool b) = CastOk (Some (js (if b then ''true'' else ''false'')))"
| "castString drv (Arr xs) = CastFailed (Arr xs)"
| "castString drv (Obj kvs) =
     (case property kvs (js ''_id'') of
        Str s \<Rightarrow> if s \<noteq> [] then CastOk (Some s) else CastFailed (Obj kvs)
      | _ \<Rightarrow> CastFailed (Obj kvs))"

fun castNumber :: "driver \<Rightarrow> jsval \<Rightarrow> rat cast" where
  "castNumber drv Undefined = CastOk None"
| "castNumber drv Null = CastOk None"
| "castNumber drv (Num n) = CastOk (Some n)"
| "castNumber drv (Bool b) = CastOk (Some (if b then 1 else 0))"
| "castNumber drv (Str s) =
     (if s = [] then CastOk None
      else case stringToNumber drv s of
             None \<Rightarrow> CastFailed (Str s)
           | Some n \<Rightarrow> CastOk (Some n))"
| "castNumber drv (Arr xs) = CastFailed (Arr xs)"
| "castNumber drv (Obj kvs) = CastFailed (Obj kvs)"

text \<open>
  Assignment to a path casts the value and runs the setters of the schema:
  \<^verbatim>\<open>trim: true\<close> on \<open>name\<close> and \<open>description\<close>, none on the other paths. A value
  that does not cast leaves the path as it was and a pending error on it.
\<close>

definition set_name :: "driver \<Rightarrow> jsval \<Rightarrow> document \<Rightarrow> document" where
  "set_name drv v d = (case d of (r, pend) \<Rightarrow>
     (case castString drv v of
        CastOk x \<Rightarrow> (r\<lparr>name := map_option trim x\<rparr>, pend)
      | CastFailed w \<Rightarrow> (r, pend @ [(''name'', PathCastError w)])))"

definition set_category :: "driver \<Rightarrow> jsval \<Rightarrow> document \<Rightarrow> document" where
  "set_category drv v d = (case d of (r, pend) \<Rightarrow>
     (case castString drv v of
        CastOk x \<Rightarrow> (r\<lparr>category := x\<rparr>, pend)
      | CastFailed w \<Rightarrow> (r, pend @ [(''category'', PathCastError w)])))"

definition set_price :: "driver \<Rightarrow> jsval \<Rightarrow> document \<Rightarrow> document" where
  "set_price drv v d = (case d of (r, pend) \<Rightarrow>
     (case castNumber drv v of
        CastOk x \<Rightarrow> (r\<lparr>price := x\<rparr>, pend)
      | CastFailed w \<Rightarrow> (r, pend @ [(''price'', PathCastError w)])))"

definition set_duration :: "driver \<Rightarrow> jsval \<Rightarrow> document \<Rightarrow> document" where
  "set_duration drv v d = (case d of (r, pend) \<Rightarrow>
     (case castString drv v of
        CastOk x \<Rightarrow> (r\<lparr>duration := x\<rparr>, pend)
      | CastFailed w \<Rightarrow> (r, pend @ [(''duration'', PathCastError w)])))"

definition set_status :: "driver \<Rightarrow> jsval \<Rightarrow> document \<Rightarrow> document" where
  "set_status drv v d = (case d of (r, pend) \<Rightarrow>
     (case castString drv v of
        CastOk x \<Rightarrow> (r\<lparr>status := x\<rparr>, pend)
      | CastFailed w \<Rightarrow> (r, pend @ [(''status'', PathCastError w)])))"

definition set_description :: "driver \<Rightarrow> jsval \<Rightarrow> document \<Rightarrow> document" where
  "set_description drv v d = (case d of (r, pend) \<Rightarrow>
     (case castString drv v of
        CastOk x \<Rightarrow> (r\<lparr>description := map_option trim x\<rparr>, pend)
      | CastFailed w \<Rightarrow> (r, pend @ [(''description'', PathCastError w)])))"

definition set_clients :: "driver \<Rightarrow> jsval \<Rightarrow> document \<Rightarrow> document" where
  "set_clients drv v d = (case d of (r, pend) \<Rightarrow>
     (case castNumber drv v of
        CastOk x \<Rightarrow> (r\<lparr>clients := x\<rparr>, pend)
      | CastFailed w \<Rightarrow> (r, pend @ [(''clients'', PathCastError w)])))"

subsection \<open>Validators\<close>

text \<open>
  The validators of a path, in the order in which they run: \<^verbatim>\<open>required\<close> first, then
  the others as declared. \<^verbatim>\<open>required\<close> on a String path wants a non-empty string, on a
  Number path a number. The other validators accept a path that is not set.
\<close>

definition requiredString :: "jsstring option \<Rightarrow> bool" where
  "requiredString v = (case v of None \<Rightarrow> False | Some s \<Rightarrow> s \<noteq> [])"

definition requiredNumber :: "rat option \<Rightarrow> bool" where
  "requiredNumber v = (case v of None \<Rightarrow> False | Some x \<Rightarrow> True)"

definition maxlength :: "nat \<Rightarrow> jsstring option \<Rightarrow> bool" where
  "maxlength n v = (case v of None \<Rightarrow> True | Some s \<Rightarrow> length s \<le> n)"

definition minNumber :: "rat \<Rightarrow> rat option \<Rightarrow> bool" where
  "minNumber m v = (case v of None \<Rightarrow> True | Some x \<Rightarrow> m \<le> x)"

definition enum :: "jsstring list \<Rightarrow> jsstring option \<Rightarrow> bool" where
  "enum vals v = (case v of None \<Rightarrow> True | Some s \<Rightarrow> s \<in> set vals)"

definition validCategories :: "jsstring list" where
  "validCategories =
     map js
       [''Digital'', ''Social'', ''Contenido'', ''Dise'' @ [CHR 0xF1] @ ''o'',
        ''Desarrollo'', ''An'' @ [CHR 0xE1] @ ''lisis'']"

definition validStatuses :: "jsstring list" where
  "validStatuses = map js [''Activo'', ''Nuevo'', ''Pausado'', ''Inactivo'']"

text \<open>The first validator of a path that fails gives the path's error.\<close>

fun firstError :: "(('a \<Rightarrow> bool) \<times> jsstring) list \<Rightarrow> 'a \<Rightarrow> verror option" where
  "firstError [] v = None"
| "firstError ((ok, msg) # vs) v =
     (if ok v then firstError vs v else Some (ValidatorError msg))"

definition nameValidators :: "((jsstring option \<Rightarrow> bool) \<times> jsstring) list" where
  "nameValidators =
     [(requiredString, js ''El nombre del servicio es obligatorio''),
      (maxlength 100, js ''El nombre no puede exceder 100 caracteres'')]"

definition categoryValidators :: "((jsstring option \<Rightarrow> bool) \<times> jsstring) list" where
  "categoryValidators =
     [(requiredString, js (''La categor'' @ [CHR 0xED] @ ''a es obligatoria'')),
      (enum validCategories,
       js (''La categor'' @ [CHR 0xED] @ ''a debe ser: Digital, Social, Contenido, Dise''
         @ [CHR 0xF1] @ ''o, Desarrollo o An'' @ [CHR 0xE1] @ ''lisis''))]"

definition priceValidators :: "((rat option \<Rightarrow> bool) \<times> jsstring) list" where
  "priceValidators =
     [(requiredNumber, js ''El precio es obligatorio''),
      (minNumber 0, js ''El precio no puede ser negativo'')]"

definition durationValidators :: "((jsstring option \<Rightarrow> bool) \<times> jsstring) list" where
  "durationValidators =
     [(requiredString, js (''La duraci'' @ [CHR 0xF3] @ ''n es obligatoria'')),
      (maxlength 50, js (''La duraci'' @ [CHR 0xF3] @ ''n no puede exceder 50 caracteres''))]"

definition statusValidators :: "((jsstring option \<Rightarrow> bool) \<times> jsstring) list" where
  "statusValidators =
     [(requiredString, js ''Path `status` is required.''),
      (enum validStatuses, js ''El estado debe ser: Activo, Nuevo, Pausado o Inactivo'')]"

definition descriptionValidators :: "((jsstring option \<Rightarrow> bool) \<times> jsstring) list" where
  "descriptionValidators =
     [(requiredString, js (''La descripci'' @ [CHR 0xF3] @ ''n es obligatoria'')),
      (maxlength 500,
       js (''La descripci'' @ [CHR 0xF3] @ ''n no puede exceder 500 caracteres''))]"

definition clientsValidators :: "((rat option \<Rightarrow> bool) \<times> jsstring) list" where
  "clientsValidators =
     [(minNumber 0,
       js (''El n'' @ [CHR 0xFA] @ ''mero de clientes no puede ser negativo''))]"

text \<open>
  The errors of one path: the pending cast error if the path has one, else the first
  validator that fails. At most one error for each path.
\<close>

definition pathErrors ::
  "(string \<times> verror) list \<Rightarrow> string \<Rightarrow> (('a \<Rightarrow> bool) \<times> jsstring) list \<Rightarrow> 'a
     \<Rightarrow> (string \<times> verror) multiset" where
  "pathErrors pend p vs v =
     (case map_of pend p of
        Some e \<Rightarrow> {#(p, e)#}
      | None \<Rightarrow> (case firstError vs v of None \<Rightarrow> {#} | Some e \<Rightarrow> {#(p, e)#}))"

text \<open>
  Validation runs every path of the schema and collects the errors: this is the
  \<^verbatim>\<open>errors\<close> object of the \<^verbatim>\<open>ValidationError\<close>, which has one entry for each path in
  error. The order in which \<^verbatim>\<open>Object.values\<close> lists the entries is the order in which
  they were recorded; the model does not follow it, and keeps them as a multiset.
\<close>

definition validate :: "document \<Rightarrow> (string \<times> verror) multiset" where
  "validate d = (case d of (r, pend) \<Rightarrow>
       pathErrors pend ''name'' nameValidators (name r)
     + pathErrors pend ''category'' categoryValidators (category r)
     + pathErrors pend ''price'' priceValidators (price r)
     + pathErrors pend ''duration'' durationValidators (duration r)
     + pathErrors pend ''status'' statusValidators (status r)
     + pathErrors pend ''description'' descriptionValidators (description r)
     + pathErrors pend ''clients'' clientsValidators (clients r))"

section \<open>Saving a document\<close>

text \<open>
  The repository has two applications over the same collection. The Express application
  uses the schema of \<^verbatim>\<open>models/Service.js\<close>, whose \<^verbatim>\<open>pre('save')\<close> middleware
  capitalises the name. The serverless application declares the schema again inline,
  with the same paths and validators and without that middleware.
\<close>

datatype app = ExpressApp | InlineApp

text \<open>
  \<^verbatim>\<open>if (this.name) { this.name = this.name.charAt(0).toUpperCase() + this.name.slice(1); }\<close>
\<close>

definition capitalizeName :: "driver \<Rightarrow> service \<Rightarrow> service" where
  "capitalizeName drv r =
     (case name r of
        None \<Rightarrow> r
      | Some n \<Rightarrow>
          if n = [] then r
          else r\<lparr>name := Some (toUpperCase drv (charAt n 0) @ slice n 1)\<rparr>)"

fun preSave :: "app \<Rightarrow> driver \<Rightarrow> service \<Rightarrow> service" where
  "preSave ExpressApp drv r = capitalizeName drv r"
| "preSave InlineApp drv r = r"

text \<open>
  \<^verbatim>\<open>timestamps: true\<close>: a new document gets \<open>createdAt\<close> and \<open>updatedAt\<close>; a loaded
  one gets a new \<open>updatedAt\<close> when an assignment has changed one of its paths.
\<close>

definition timestamps :: "bool \<Rightarrow> bool \<Rightarrow> nat \<Rightarrow> service \<Rightarrow> service" where
  "timestamps isNew modified now r =
     (if isNew then r\<lparr>createdAt := now, updatedAt := now\<rparr>
      else if modified then r\<lparr>updatedAt := now\<rparr>
      else r)"

text \<open>
  What a handler can catch: a \<^verbatim>\<open>ValidationError\<close> with its errors by path, the
  \<^verbatim>\<open>CastError\<close> of a malformed id, or another failure of the store (here: an
  \<^verbatim>\<open>_id\<close> that the collection already has).
\<close>

datatype error =
    ValidationError "(string \<times> verror) multiset"
  | CastError
  | MongoServerError

type_synonym store = "service list"

definition insertOne :: "service \<Rightarrow> store \<Rightarrow> error + store" where
  "insertOne r st =
     (if ident r \<in> set (map ident st) then Inl MongoServerError else Inr (st @ [r]))"

definition updateOne :: "service \<Rightarrow> store \<Rightarrow> store" where
  "updateOne r st = map (\<lambda>x. if ident x = ident r then r else x) st"

text \<open>
  \<^verbatim>\<open>save()\<close>: validation runs first and stops the save with all its errors; then the
  timestamps, then the middleware of the schema, then the write.
\<close>

definition save ::
  "app \<Rightarrow> driver \<Rightarrow> nat \<Rightarrow> bool \<Rightarrow> bool \<Rightarrow> document \<Rightarrow> store
     \<Rightarrow> error + (service \<times> store)" where
  "save a drv now isNew modified d st =
     (if validate d \<noteq> {#} then Inl (ValidationError (validate d))
      else
        (let r = preSave a drv (timestamps isNew modified now (fst d)) in
         if isNew then
           (case insertOne r st of
              Inl err \<Rightarrow> Inl err
            | Inr st' \<Rightarrow> Inr (r, st'))
         else Inr (r, updateOne r st)))"

text \<open>\<^verbatim>\<open>Service.findById(id)\<close>\<close>

definition findById :: "driver \<Rightarrow> store \<Rightarrow> jsstring \<Rightarrow> error + service option" where
  "findById drv st i =
     (case castObjectId drv i of
        None \<Rightarrow> Inl CastError
      | Some oid \<Rightarrow> Inr (find (\<lambda>r. ident r = oid) st))"

text \<open>\<^verbatim>\<open>.sort({ createdAt: -1 })\<close>\<close>

definition sortCreatedAtDesc :: "service list \<Rightarrow> service list" where
  "sortCreatedAtDesc rs = sort_key (\<lambda>r. - int (createdAt r)) rs"

section \<open>The handlers\<close>

text \<open>
  A response is the status code and the JSON body. The \<^verbatim>\<open>error\<close> detail that the 500
  bodies carry in development is not modelled, and a failure of the connection to the
  store is not either. The \<^verbatim>\<open>errors\<close> of a 400 body are the messages of the errors of
  the paths, as a multiset. The snapshot of the statistics is kept flat: its fields are
  those of the sections \<^verbatim>\<open>overview\<close>, \<^verbatim>\<open>clients\<close>, \<^verbatim>\<open>categories\<close> and
  \<^verbatim>\<open>pricing\<close>, with \<^verbatim>\<open>lastUpdated\<close>.
\<close>

record stats =
  totalServices :: nat
  activeServices :: nat
  newServices :: nat
  pausedServices :: nat
  inactiveServices :: nat
  totalClients :: rat
  totalCategories :: nat
  availableCategories :: "jsstring list"
  averagePrice :: rat
  minPrice :: rat
  maxPrice :: rat
  lastUpdated :: nat

datatype payload =
    ServiceList "service list"
  | ServiceDoc service
  | MessageService jsstring service
  | MessageId jsstring jsstring
  | MessageErrors jsstring "jsstring multiset"
  | InvalidCategory jsstring "jsstring list" jsstring
  | CategoryList jsstring nat "service list"
  | StatsDoc stats
  | MessageOnly jsstring

type_synonym response = "nat \<times> payload"

text \<open>\<^verbatim>\<open>err.message\<close> of the error of a path.\<close>

fun message :: "driver \<Rightarrow> string \<times> verror \<Rightarrow> jsstring" where
  "message drv (p, ValidatorError m) = m"
| "message drv (p, PathCastError v) = castMessage drv v p"

text \<open>The value of a path as the handler reads it.\<close>

definition strVal :: "jsstring option \<Rightarrow> jsval" where
  "strVal v = (case v of None \<Rightarrow> Undefined | Some s \<Rightarrow> Str s)"

definition numVal :: "rat option \<Rightarrow> jsval" where
  "numVal v = (case v of None \<Rightarrow> Undefined | Some n \<Rightarrow> Num n)"

definition getAllServices :: "store \<Rightarrow> response" where
  "getAllServices st = (200, ServiceList (sortCreatedAtDesc st))"

text \<open>
  \<^verbatim>\<open>new Service({...})\<close>: a document with a fresh \<^verbatim>\<open>_id\<close> (the argument \<open>oid\<close>) and
  the defaults of the schema (\<^verbatim>\<open>status: 'Nuevo'\<close>, \<^verbatim>\<open>clients: 0\<close>), whose paths are
  then assigned from the seven properties of the object literal, in its order.
\<close>

definition emptyService :: "jsstring \<Rightarrow> service" where
  "emptyService oid =
     \<lparr>ident = oid, name = None, category = None, price = None, duration = None,
      status = Some (js ''Nuevo''), description = None, clients = Some 0,
      createdAt = 0, updatedAt = 0\<rparr>"

definition newService :: "driver \<Rightarrow> jsstring \<Rightarrow> body \<Rightarrow> document" where
  "newService drv oid b =
     (set_clients drv (js_or (b ''clients'') (Num 0))
     (set_description drv (b ''description'')
     (set_status drv (js_or (b ''status'') (Str (js ''Nuevo'')))
     (set_duration drv (b ''duration'')
     (set_price drv (b ''price'')
     (set_category drv (b ''category'')
     (set_name drv (b ''name'') (emptyService oid, []))))))))"

definition createService ::
  "app \<Rightarrow> driver \<Rightarrow> jsstring \<Rightarrow> nat \<Rightarrow> store \<Rightarrow> body \<Rightarrow> response \<times> store" where
  "createService a drv oid now st b =
     (case save a drv now True True (newService drv oid b) st of
        Inr (r, st') \<Rightarrow>
          ((201, MessageService (js ''Servicio creado exitosamente'') r), st')
      | Inl (ValidationError errs) \<Rightarrow>
          ((400, MessageErrors (js (''Error de validaci'' @ [CHR 0xF3] @ ''n''))
                   (image_mset (message drv) errs)), st)
      | Inl _ \<Rightarrow>
          ((500, MessageOnly (js ''Error interno del servidor al crear servicio'')), st))"

definition getServiceById :: "driver \<Rightarrow> store \<Rightarrow> jsstring \<Rightarrow> response" where
  "getServiceById drv st i =
     (case findById drv st i of
        Inr (Some r) \<Rightarrow> (200, ServiceDoc r)
      | Inr None \<Rightarrow> (404, MessageId (js ''Servicio no encontrado'') i)
      | Inl CastError \<Rightarrow>
          (400, MessageId (js (''ID de servicio inv'' @ [CHR 0xE1] @ ''lido'')) i)
      | Inl _ \<Rightarrow> (500, MessageOnly (js ''Error interno del servidor'')))"

text \<open>The seven assignments of \<^verbatim>\<open>updateService\<close>, in their order.\<close>

definition assignFields :: "driver \<Rightarrow> body \<Rightarrow> service \<Rightarrow> document" where
  "assignFields drv b r =
     (set_clients drv
        (if b ''clients'' \<noteq> Undefined then b ''clients'' else numVal (clients r))
     (set_description drv (js_or (b ''description'') (strVal (description r)))
     (set_status drv (js_or (b ''status'') (strVal (status r)))
     (set_duration drv (js_or (b ''duration'') (strVal (duration r)))
     (set_price drv
        (if b ''price'' \<noteq> Undefined then b ''price'' else numVal (price r))
     (set_category drv (js_or (b ''category'') (strVal (category r)))
     (set_name drv (js_or (b ''name'') (strVal (name r))) (r, []))))))))"

definition updateService ::
  "app \<Rightarrow> driver \<Rightarrow> nat \<Rightarrow> store \<Rightarrow> jsstring \<Rightarrow> body \<Rightarrow> response \<times> store" where
  "updateService a drv now st i b =
     (case findById drv st i of
        Inr (Some r) \<Rightarrow>
          (let d = assignFields drv b r in
           case save a drv now False (fst d \<noteq> r) d st of
             Inr (r', st') \<Rightarrow>
               ((200, MessageService (js ''Servicio actualizado exitosamente'') r'), st')
           | Inl (ValidationError errs) \<Rightarrow>
               ((400, MessageErrors
                        (js (''Error de validaci'' @ [CHR 0xF3] @ ''n en actualizaci''
                           @ [CHR 0xF3] @ ''n''))
                        (image_mset (message drv) errs)), st)
           | Inl CastError \<Rightarrow>
               ((400, MessageId (js (''ID de servicio inv'' @ [CHR 0xE1] @ ''lido'')) i),
                st)
           | Inl _ \<Rightarrow>
               ((500, MessageOnly (js ''Error interno del servidor al actualizar'')), st))
      | Inr None \<Rightarrow>
          ((404, MessageId (js ''Servicio no encontrado para actualizar'') i), st)
      | Inl CastError \<Rightarrow>
          ((400, MessageId (js (''ID de servicio inv'' @ [CHR 0xE1] @ ''lido'')) i), st)
      | Inl _ \<Rightarrow>
          ((500, MessageOnly (js ''Error interno del servidor al actualizar'')), st))"

text \<open>
  \<^verbatim>\<open>getServicesByCategory\<close> returns before \<^verbatim>\<open>Service.find\<close> on a category outside
  the list. The second component is the list of the queries that the handler has sent
  to the store, each with its filter.
\<close>

datatype query = Find "jsstring option"

definition getServicesByCategory :: "store \<Rightarrow> jsstring \<Rightarrow> response \<times> query list" where
  "getServicesByCategory st c =
     (if c \<notin> set validCategories then
        ((400, InvalidCategory
                 (js (''Categor'' @ [CHR 0xED] @ ''a inv'' @ [CHR 0xE1] @ ''lida''))
                 validCategories c), [])
      else
        (let services = sortCreatedAtDesc (filter (\<lambda>r. category r = Some c) st) in
         ((200, CategoryList c (length services) services), [Find (Some c)])))"

subsection \<open>Statistics\<close>

text \<open>
  The eight queries of \<^verbatim>\<open>getServiceStats\<close> are read here from one state of the
  collection. \<^verbatim>\<open>$group\<close> with \<^verbatim>\<open>_id: null\<close> returns no group on an empty collection
  and one group otherwise; \<^verbatim>\<open>$sum\<close>, \<^verbatim>\<open>$avg\<close>, \<^verbatim>\<open>$min\<close> and \<^verbatim>\<open>$max\<close> pass over
  a value that is not a number, and the last three are null when no value is one.
\<close>

definition countDocuments :: "(service \<Rightarrow> bool) \<Rightarrow> store \<Rightarrow> nat" where
  "countDocuments f st = length (filter f st)"

definition numberOr0 :: "rat option \<Rightarrow> rat" where
  "numberOr0 v = (case v of None \<Rightarrow> 0 | Some c \<Rightarrow> c)"

definition aggregateClients :: "store \<Rightarrow> rat list" where
  "aggregateClients st =
     (if st = [] then [] else [sum_list (map (\<lambda>r. numberOr0 (clients r)) st)])"

fun minimum :: "rat list \<Rightarrow> rat option" where
  "minimum [] = None"
| "minimum (x # xs) = Some (fold min xs x)"

fun maximum :: "rat list \<Rightarrow> rat option" where
  "maximum [] = None"
| "maximum (x # xs) = Some (fold max xs x)"

definition average :: "rat list \<Rightarrow> rat option" where
  "average xs = (if xs = [] then None else Some (sum_list xs / of_nat (length xs)))"

definition aggregatePrices :: "store \<Rightarrow> (rat option \<times> rat option \<times> rat option) list" where
  "aggregatePrices st =
     (if st = [] then []
      else (let ps = List.map_filter price st in [(average ps, minimum ps, maximum ps)]))"

definition distinctCategories :: "store \<Rightarrow> jsstring list" where
  "distinctCategories st = remdups (List.map_filter category st)"

text \<open>\<^verbatim>\<open>result[0]?.field || 0\<close>\<close>

definition firstOr0 :: "'a list \<Rightarrow> ('a \<Rightarrow> rat option) \<Rightarrow> rat" where
  "firstOr0 result field =
     (case result of
        [] \<Rightarrow> 0
      | g # _ \<Rightarrow> (case field g of None \<Rightarrow> 0 | Some x \<Rightarrow> if x \<noteq> 0 then x else 0))"

text \<open>\<^verbatim>\<open>Math.round\<close>: the nearest integer, a half going up.\<close>

definition mathRound :: "rat \<Rightarrow> rat" where
  "mathRound x = of_int \<lfloor>x + 1 / 2\<rfloor>"

definition getServiceStats :: "nat \<Rightarrow> store \<Rightarrow> response" where
  "getServiceStats now st =
     (let totalClientsResult = aggregateClients st;
          categories = distinctCategories st;
          averagePriceResult = aggregatePrices st
      in (200, StatsDoc
           \<lparr>totalServices = countDocuments (\<lambda>r. True) st,
            activeServices = countDocuments (\<lambda>r. status r = Some (js ''Activo'')) st,
            newServices = countDocuments (\<lambda>r. status r = Some (js ''Nuevo'')) st,
            pausedServices = countDocuments (\<lambda>r. status r = Some (js ''Pausado'')) st,
            inactiveServices = countDocuments (\<lambda>r. status r = Some (js ''Inactivo'')) st,
            totalClients = firstOr0 totalClientsResult Some,
            totalCategories = length categories,
            availableCategories = categories,
            averagePrice = mathRound (firstOr0 averagePriceResult fst),
            minPrice = firstOr0 averagePriceResult (\<lambda>g. fst (snd g)),
            maxPrice = firstOr0 averagePriceResult (\<lambda>g. snd (snd g)),
            lastUpdated = now\<rparr>))"

section \<open>Notions used to state the properties\<close>

text \<open>
  The list of records that a response carries and its order by creation time, and the
  record that a response carries.
\<close>

definition servicesOf :: "response \<Rightarrow> service list" where
  "servicesOf resp =
     (case snd resp of ServiceList rs \<Rightarrow> rs | CategoryList c n rs \<Rightarrow> rs | _ \<Rightarrow> [])"

definition mostRecentFirst :: "service list \<Rightarrow> bool" where
  "mostRecentFirst rs = sorted_wrt (\<lambda>x y. createdAt y \<le> createdAt x) rs"

definition recordOf :: "response \<Rightarrow> service option" where
  "recordOf resp =
     (case snd resp of ServiceDoc r \<Rightarrow> Some r | MessageService m r \<Rightarrow> Some r | _ \<Rightarrow> None)"

text \<open>
  What an assignment leaves: the value of the path (the old one when the cast fails)
  and the pending error.
\<close>

definition castValue :: "'a option \<Rightarrow> 'a cast \<Rightarrow> 'a option" where
  "castValue old c = (case c of CastOk x \<Rightarrow> x | CastFailed w \<Rightarrow> old)"

definition castPending :: "string \<Rightarrow> 'a cast \<Rightarrow> (string \<times> verror) list" where
  "castPending p c = (case c of CastOk x \<Rightarrow> [] | CastFailed w \<Rightarrow> [(p, PathCastError w)])"

definition pendingOf :: "'a cast \<Rightarrow> verror option" where
  "pendingOf c = (case c of CastOk x \<Rightarrow> None | CastFailed w \<Rightarrow> Some (PathCastError w))"

definition trimmedValue :: "jsstring option \<Rightarrow> jsstring cast \<Rightarrow> jsstring option" where
  "trimmedValue old c = (case c of CastOk x \<Rightarrow> map_option trim x | CastFailed w \<Rightarrow> old)"

text \<open>
  The seven paths of the schema that a request can set, in the order of the schema, and
  those that the schema requires of a create payload.
\<close>

definition businessFields :: "string list" where
  "businessFields =
     [''name'', ''category'', ''price'', ''duration'', ''status'', ''description'',
      ''clients'']"


text \<open>
  When a create payload is acceptable in one field, stated on the payload itself: the
  name and the description are non-empty once trimmed and within 100 and 500
  characters, the category is one of the six, the price is a number that is not
  negative, the duration is non-empty and within 50 characters, a status that is given
  is one of the four, and a number of clients that is given is not negative.
\<close>

definition nameOk :: "driver \<Rightarrow> body \<Rightarrow> bool" where
  "nameOk drv b =
     (case castString drv (b ''name'') of
        CastOk (Some s) \<Rightarrow> trim s \<noteq> [] \<and> length (trim s) \<le> 100
      | _ \<Rightarrow> False)"

definition categoryOk :: "driver \<Rightarrow> body \<Rightarrow> bool" where
  "categoryOk drv b =
     (case castString drv (b ''category'') of
        CastOk (Some s) \<Rightarrow> s \<in> set validCategories
      | _ \<Rightarrow> False)"

definition priceOk :: "driver \<Rightarrow> body \<Rightarrow> bool" where
  "priceOk drv b =
     (case castNumber drv (b ''price'') of
        CastOk (Some n) \<Rightarrow> 0 \<le> n
      | _ \<Rightarrow> False)"

definition durationOk :: "driver \<Rightarrow> body \<Rightarrow> bool" where
  "durationOk drv b =
     (case castString drv (b ''duration'') of
        CastOk (Some s) \<Rightarrow> s \<noteq> [] \<and> length s \<le> 50
      | _ \<Rightarrow> False)"

definition statusOk :: "driver \<Rightarrow> body \<Rightarrow> bool" where
  "statusOk drv b =
     (if truthy (b ''status'') then
        (case castString drv (b ''status'') of
           CastOk (Some s) \<Rightarrow> s \<in> set validStatuses
         | _ \<Rightarrow> False)
      else True)"

definition descriptionOk :: "driver \<Rightarrow> body \<Rightarrow> bool" where
  "descriptionOk drv b =
     (case castString drv (b ''description'') of
        CastOk (Some s) \<Rightarrow> trim s \<noteq> [] \<and> length (trim s) \<le> 500
      | _ \<Rightarrow> False)"

definition clientsOk :: "driver \<Rightarrow> body \<Rightarrow> bool" where
  "clientsOk drv b =
     (if truthy (b ''clients'') then
        (case castNumber drv (b ''clients'') of
           CastOk None \<Rightarrow> True
         | CastOk (Some n) \<Rightarrow> 0 \<le> n
         | CastFailed w \<Rightarrow> False)
      else True)"

text \<open>
  The fields of a create payload that are missing or invalid as the schema has it.
\<close>

definition invalidFields :: "driver \<Rightarrow> body \<Rightarrow> string list" where
  "invalidFields drv b =
       (if nameOk drv b then [] else [''name''])
     @ (if categoryOk drv b then [] else [''category''])
     @ (if priceOk drv b then [] else [''price''])
     @ (if durationOk drv b then [] else [''duration''])
     @ (if statusOk drv b then [] else [''status''])
     @ (if descriptionOk drv b then [] else [''description''])
     @ (if clientsOk drv b then [] else [''clients''])"

text \<open>
  The same in the words of the specification, whose rule for the duration is: present,
  non-empty after trimming (and within 50 characters). This is the only rule in which
  the two differ, and they differ on the payloads whose duration is blank: a string
  that is not empty and has white space only.
\<close>

definition specDurationOk :: "driver \<Rightarrow> body \<Rightarrow> bool" where
  "specDurationOk drv b =
     (case castString drv (b ''duration'') of
        CastOk (Some s) \<Rightarrow> trim s \<noteq> [] \<and> length s \<le> 50
      | _ \<Rightarrow> False)"

definition specInvalidFields :: "driver \<Rightarrow> body \<Rightarrow> string list" where
  "specInvalidFields drv b =
       (if nameOk drv b then [] else [''name''])
     @ (if categoryOk drv b then [] else [''category''])
     @ (if priceOk drv b then [] else [''price''])
     @ (if specDurationOk drv b then [] else [''duration''])
     @ (if statusOk drv b then [] else [''status''])
     @ (if descriptionOk drv b then [] else [''description''])
     @ (if clientsOk drv b then [] else [''clients''])"


text \<open>The payload of a request that sets nothing.\<close>

definition emptyPayload :: body where
  "emptyPayload = (\<lambda>k. Undefined)"

text \<open>Every record of the collection passes the validators of the path \<open>status\<close>.\<close>

definition statusesValid :: "store \<Rightarrow> bool" where
  "statusesValid st = list_all (\<lambda>r. firstError statusValidators (status r) = None) st"

text \<open>The mean of the prices of the collection, 0 when it has none.\<close>

definition meanPrice :: "store \<Rightarrow> rat" where
  "meanPrice st =
     (let ps = List.map_filter price st in
      if ps = [] then 0 else sum_list ps / of_nat (length ps))"

text \<open>
  A record as a save of the application \<open>a\<close> leaves it: the trimmed paths are trimmed
  and the middleware of the application's schema does not change it.
\<close>

definition normalised :: "app \<Rightarrow> driver \<Rightarrow> service \<Rightarrow> bool" where
  "normalised a drv r =
     (preSave a drv r = r
      \<and> map_option trim (name r) = name r
      \<and> map_option trim (description r) = description r)"

text \<open>
  What an update writes where the payload gives no name and no description: the stored
  values, trimmed again, the name passed through the middleware again.
\<close>

definition rewritten :: "app \<Rightarrow> driver \<Rightarrow> service \<Rightarrow> service" where
  "rewritten a drv r =
     preSave a drv
       (r\<lparr>name := map_option trim (name r),
          description := map_option trim (description r)\<rparr>)"

text \<open>Two records that differ at most in \<open>updatedAt\<close>.\<close>

definition sameExceptUpdatedAt :: "service \<Rightarrow> service \<Rightarrow> bool" where
  "sameExceptUpdatedAt r r' = (r'\<lparr>updatedAt := updatedAt r\<rparr> = r)"

text \<open>
  A collection as the handlers of the application \<open>a\<close> leave it: its records are
  normalised, carry a status of the schema, and have distinct identifiers.
\<close>

definition savedStore :: "app \<Rightarrow> driver \<Rightarrow> store \<Rightarrow> bool" where
  "savedStore a drv st =
     (list_all (normalised a drv) st \<and> statusesValid st \<and> distinct (map ident st))"

text \<open>
  What the lemmas on normalised records ask of \<^verbatim>\<open>toUpperCase\<close>: on a single code unit
  it gives a non-empty string, with no white space unless the code unit is one, whose
  first code unit it leaves as it is.
\<close>

definition upperStable :: "driver \<Rightarrow> bool" where
  "upperStable drv =
     (\<forall>c. toUpperCase drv [c] \<noteq> []
        \<and> (\<not> isWhiteSpace c \<longrightarrow> (\<forall>x\<in>set (toUpperCase drv [c]). \<not> isWhiteSpace x))
        \<and> toUpperCase drv [hd (toUpperCase drv [c])] = [hd (toUpperCase drv [c])])"

section \<open>Examples\<close>

text \<open>
  A driver that takes 24 hexadecimal digits for an identifier, read in lower case, and
  puts the letters below 256 in upper case, and the payload of the scenario with the record that the Express
  application stores for it. The driver's conversions between numbers and strings are
  stand-ins: no string reads as a number and every number prints as \<open>0\<close>. The examples
  use them for one value only, the string \<open>abc\<close>, which is not a number.
\<close>

definition isHexDigit :: "nat \<Rightarrow> bool" where
  "isHexDigit c = (c \<in> set (js ''0123456789abcdefABCDEF''))"

definition sampleUpperUnit :: "nat \<Rightarrow> jsstring" where
  "sampleUpperUnit c =
     (if 97 \<le> c \<and> c \<le> 122 then [c - 32]
      else if c = 181 then [924]
      else if c = 223 then [83, 83]
      else if 224 \<le> c \<and> c \<le> 254 \<and> c \<noteq> 247 then [c - 32]
      else if c = 255 then [376]
      else [c])"

definition sampleDriver :: driver where
  "sampleDriver =
     \<lparr>castObjectId =
        (\<lambda>s. if length s = 24 \<and> list_all isHexDigit s
             then Some (map (\<lambda>c. if 65 \<le> c \<and> c \<le> 70 then c + 32 else c) s)
             else None),
      numberToString = (\<lambda>n. js ''0''),
      stringToNumber = (\<lambda>s. None),
      toUpperCase = (\<lambda>s. concat (map sampleUpperUnit s)),
      castMessage = (\<lambda>v p. js (''Cast failed at path '' @ p))\<rparr>"

definition sampleId :: jsstring where
  "sampleId = js ''507f1f77bcf86cd799439011''"

definition otherId :: jsstring where
  "otherId = js ''507f1f77bcf86cd799439012''"

definition seoAudit :: body where
  "seoAudit =
     (\<lambda>k. Undefined)
       (''name'' := Str (js ''seo audit''), ''category'' := Str (js ''Digital''),
        ''price'' := Num 100, ''duration'' := Str (js ''1 week''),
        ''description'' := Str (js ''desc''))"

definition sampleService :: service where
  "sampleService =
     \<lparr>ident = sampleId, name = Some (js ''Seo audit''),
      category = Some (js ''Digital''), price = Some 100, duration = Some (js ''1 week''),
      status = Some (js ''Nuevo''), description = Some (js ''desc''), clients = Some 5,
      createdAt = 1000, updatedAt = 1000\<rparr>"



definition seoAuditExtra :: body where
  "seoAuditExtra =
     seoAudit(''_id'' := Str (js ''000000000000000000000000''), ''createdAt'' := Num 1)"

text \<open>A collection of two records.\<close>

definition statsStore :: store where
  "statsStore =
     [sampleService,
      sampleService\<lparr>ident := otherId, price := Some 103,
        status := Some (js ''Activo'')\<rparr>]"






text \<open>The record that the serverless application stores for the scenario.\<close>

definition seoAuditInline :: service where
  "seoAuditInline =
     \<lparr>ident = sampleId, name = Some (js ''seo audit''),
      category = Some (js ''Digital''), price = Some 100, duration = Some (js ''1 week''),
      status = Some (js ''Nuevo''), description = Some (js ''desc''), clients = Some 0,
      createdAt = 1000, updatedAt = 1000\<rparr>"

text \<open>A stored record whose category is not one of the schema.\<close>

definition legacyService :: service where
  "legacyService = sampleService\<lparr>category := Some (js ''Legacy'')\<rparr>"

section \<open>Properties\<close>

subsection \<open>The document that a request builds\<close>

lemma set_name_eq:
  "set_name drv v (r, pend) =
     (r\<lparr>name := trimmedValue (name r) (castString drv v)\<rparr>,
      pend @ castPending ''name'' (castString drv v))"
  by (simp add: set_name_def trimmedValue_def castPending_def split: cast.splits)

lemma set_category_eq:
  "set_category drv v (r, pend) =
     (r\<lparr>category := castValue (category r) (castString drv v)\<rparr>,
      pend @ castPending ''category'' (castString drv v))"
  by (simp add: set_category_def castValue_def castPending_def split: cast.splits)

lemma set_price_eq:
  "set_price drv v (r, pend) =
     (r\<lparr>price := castValue (price r) (castNumber drv v)\<rparr>,
      pend @ castPending ''price'' (castNumber drv v))"
  by (simp add: set_price_def castValue_def castPending_def split: cast.splits)

lemma set_duration_eq:
  "set_duration drv v (r, pend) =
     (r\<lparr>duration := castValue (duration r) (castString drv v)\<rparr>,
      pend @ castPending ''duration'' (castString drv v))"
  by (simp add: set_duration_def castValue_def castPending_def split: cast.splits)

lemma set_status_eq:
  "set_status drv v (r, pend) =
     (r\<lparr>status := castValue (status r) (castString drv v)\<rparr>,
      pend @ castPending ''status'' (castString drv v))"
  by (simp add: set_status_def castValue_def castPending_def split: cast.splits)

lemma set_description_eq:
  "set_description drv v (r, pend) =
     (r\<lparr>description := trimmedValue (description r) (castString drv v)\<rparr>,
      pend @ castPending ''description'' (castString drv v))"
  by (simp add: set_description_def trimmedValue_def castPending_def split: cast.splits)

lemma set_clients_eq:
  "set_clients drv v (r, pend) =
     (r\<lparr>clients := castValue (clients r) (castNumber drv v)\<rparr>,
      pend @ castPending ''clients'' (castNumber drv v))"
  by (simp add: set_clients_def castValue_def castPending_def split: cast.splits)

lemmas set_eqs = set_name_eq set_category_eq set_price_eq set_duration_eq set_status_eq
  set_description_eq set_clients_eq

lemmas set_defs = set_name_def set_category_def set_price_def set_duration_def
  set_status_def set_description_def set_clients_def

lemma newService_eq:
  "newService drv oid b =
     (\<lparr>ident = oid,
       name = trimmedValue None (castString drv (b ''name'')),
       category = castValue None (castString drv (b ''category'')),
       price = castValue None (castNumber drv (b ''price'')),
       duration = castValue None (castString drv (b ''duration'')),
       status = castValue (Some (js ''Nuevo''))
          (castString drv (js_or (b ''status'') (Str (js ''Nuevo'')))),
       description = trimmedValue None (castString drv (b ''description'')),
       clients = castValue (Some 0) (castNumber drv (js_or (b ''clients'') (Num 0))),
       createdAt = 0, updatedAt = 0\<rparr>,
      castPending ''name'' (castString drv (b ''name''))
      @ castPending ''category'' (castString drv (b ''category''))
      @ castPending ''price'' (castNumber drv (b ''price''))
      @ castPending ''duration'' (castString drv (b ''duration''))
      @ castPending ''status'' (castString drv (js_or (b ''status'') (Str (js ''Nuevo''))))
      @ castPending ''description'' (castString drv (b ''description''))
      @ castPending ''clients'' (castNumber drv (js_or (b ''clients'') (Num 0))))"
  by (simp add: newService_def set_eqs emptyService_def)

lemma assignFields_eq:
  "assignFields drv b r =
     (r\<lparr>name := trimmedValue (name r)
           (castString drv (js_or (b ''name'') (strVal (name r)))),
        category := castValue (category r)
           (castString drv (js_or (b ''category'') (strVal (category r)))),
        price := castValue (price r) (castNumber drv
           (if b ''price'' \<noteq> Undefined then b ''price'' else numVal (price r))),
        duration := castValue (duration r)
           (castString drv (js_or (b ''duration'') (strVal (duration r)))),
        status := castValue (status r)
           (castString drv (js_or (b ''status'') (strVal (status r)))),
        description := trimmedValue (description r)
           (castString drv (js_or (b ''description'') (strVal (description r)))),
        clients := castValue (clients r) (castNumber drv
           (if b ''clients'' \<noteq> Undefined then b ''clients'' else numVal (clients r)))\<rparr>,
      castPending ''name'' (castString drv (js_or (b ''name'') (strVal (name r))))
      @ castPending ''category''
          (castString drv (js_or (b ''category'') (strVal (category r))))
      @ castPending ''price'' (castNumber drv
           (if b ''price'' \<noteq> Undefined then b ''price'' else numVal (price r)))
      @ castPending ''duration''
          (castString drv (js_or (b ''duration'') (strVal (duration r))))
      @ castPending ''status'' (castString drv (js_or (b ''status'') (strVal (status r))))
      @ castPending ''description''
          (castString drv (js_or (b ''description'') (strVal (description r))))
      @ castPending ''clients'' (castNumber drv
           (if b ''clients'' \<noteq> Undefined then b ''clients'' else numVal (clients r))))"
  by (simp add: assignFields_def set_eqs)


lemma map_of_castPending:
  "map_of (castPending p c @ rest) q = (if q = p \<and> pendingOf c \<noteq> None then pendingOf c else map_of rest q)"
  by (cases c) (simp_all add: castPending_def pendingOf_def)

lemma map_of_castPending_last:
  "map_of (castPending p c) q = (if q = p then pendingOf c else None)"
  by (cases c) (simp_all add: castPending_def pendingOf_def)

lemma errors_name:
  "map_of pend ''name'' = pendingOf (castString drv (b ''name'')) \<Longrightarrow>
   image_mset fst (pathErrors pend ''name'' nameValidators
       (trimmedValue None (castString drv (b ''name''))))
     = mset (if nameOk drv b then [] else [''name''])"
  by (simp add: pathErrors_def pendingOf_def nameValidators_def nameOk_def requiredString_def
      maxlength_def trimmedValue_def split: cast.splits option.splits)

lemma errors_category:
  "map_of pend ''category'' = pendingOf (castString drv (b ''category'')) \<Longrightarrow>
   image_mset fst (pathErrors pend ''category'' categoryValidators
       (castValue None (castString drv (b ''category''))))
     = mset (if categoryOk drv b then [] else [''category''])"
  by (auto simp: pathErrors_def pendingOf_def categoryValidators_def categoryOk_def
      requiredString_def enum_def validCategories_def js_def castValue_def
      split: cast.splits option.splits)

lemma errors_price:
  "map_of pend ''price'' = pendingOf (castNumber drv (b ''price'')) \<Longrightarrow>
   image_mset fst (pathErrors pend ''price'' priceValidators
       (castValue None (castNumber drv (b ''price''))))
     = mset (if priceOk drv b then [] else [''price''])"
  by (simp add: pathErrors_def pendingOf_def priceValidators_def priceOk_def
      requiredNumber_def minNumber_def castValue_def split: option.splits cast.splits)

lemma errors_duration:
  "map_of pend ''duration'' = pendingOf (castString drv (b ''duration'')) \<Longrightarrow>
   image_mset fst (pathErrors pend ''duration'' durationValidators
       (castValue None (castString drv (b ''duration''))))
     = mset (if durationOk drv b then [] else [''duration''])"
  by (simp add: pathErrors_def pendingOf_def durationValidators_def durationOk_def
      requiredString_def maxlength_def castValue_def split: cast.splits option.splits)

lemma errors_status:
  "map_of pend ''status'' = pendingOf (castString drv (js_or (b ''status'') (Str (js ''Nuevo'')))) \<Longrightarrow>
   image_mset fst (pathErrors pend ''status'' statusValidators
       (castValue old (castString drv (js_or (b ''status'') (Str (js ''Nuevo''))))))
     = mset (if statusOk drv b then [] else [''status''])"
  by (cases "truthy (b ''status'')")
     (auto simp: pathErrors_def pendingOf_def statusValidators_def statusOk_def
      requiredString_def enum_def validStatuses_def js_or_def js_def castValue_def
      split: cast.splits option.splits)

lemma errors_description:
  "map_of pend ''description'' = pendingOf (castString drv (b ''description'')) \<Longrightarrow>
   image_mset fst (pathErrors pend ''description'' descriptionValidators
       (trimmedValue None (castString drv (b ''description''))))
     = mset (if descriptionOk drv b then [] else [''description''])"
  by (simp add: pathErrors_def pendingOf_def descriptionValidators_def descriptionOk_def
      requiredString_def maxlength_def trimmedValue_def split: cast.splits option.splits)

lemma errors_clients:
  "map_of pend ''clients'' = pendingOf (castNumber drv (js_or (b ''clients'') (Num 0))) \<Longrightarrow>
   image_mset fst (pathErrors pend ''clients'' clientsValidators
       (castValue old (castNumber drv (js_or (b ''clients'') (Num 0)))))
     = mset (if clientsOk drv b then [] else [''clients''])"
  by (cases "truthy (b ''clients'')")
     (simp_all add: pathErrors_def pendingOf_def clientsValidators_def clientsOk_def
      minNumber_def castValue_def js_or_def split: option.splits cast.splits)

lemma pending_lookup:
  fixes c1 c2 c4 c5 c6 :: "jsstring cast" and c3 c7 :: "rat cast"
  defines "pend \<equiv> castPending ''name'' c1 @ castPending ''category'' c2
      @ castPending ''price'' c3 @ castPending ''duration'' c4 @ castPending ''status'' c5
      @ castPending ''description'' c6 @ castPending ''clients'' c7"
  shows "map_of pend ''name'' = pendingOf c1"
    and "map_of pend ''category'' = pendingOf c2"
    and "map_of pend ''price'' = pendingOf c3"
    and "map_of pend ''duration'' = pendingOf c4"
    and "map_of pend ''status'' = pendingOf c5"
    and "map_of pend ''description'' = pendingOf c6"
    and "map_of pend ''clients'' = pendingOf c7"
  unfolding pend_def
  by (simp_all only: map_of_castPending map_of_castPending_last) auto

lemma validate_newService:
  "image_mset fst (validate (newService drv oid b)) = mset (invalidFields drv b)"
  unfolding newService_eq validate_def invalidFields_def
  by (simp only: prod.case service.select_convs image_mset_union mset_append add.assoc
      errors_name [OF pending_lookup(1)] errors_category [OF pending_lookup(2)]
      errors_price [OF pending_lookup(3)] errors_duration [OF pending_lookup(4)]
      errors_status [OF pending_lookup(5)] errors_description [OF pending_lookup(6)]
      errors_clients [OF pending_lookup(7)])

lemma validate_empty_iff:
  "validate (newService drv oid b) = {#} \<longleftrightarrow> invalidFields drv b = []"
proof -
  have "validate (newService drv oid b) = {#}
      \<longleftrightarrow> image_mset fst (validate (newService drv oid b)) = {#}"
    by simp
  then show ?thesis by (simp only: validate_newService mset_zero_iff)
qed

lemma createService_cases:
  "createService a drv oid now st b =
     (if validate (newService drv oid b) \<noteq> {#} then
        ((400, MessageErrors (js (''Error de validaci'' @ [CHR 0xF3] @ ''n''))
                 (image_mset (message drv) (validate (newService drv oid b)))), st)
      else
        (let r = preSave a drv (timestamps True True now (fst (newService drv oid b))) in
         if ident r \<in> set (map ident st)
         then ((500, MessageOnly (js ''Error interno del servidor al crear servicio'')), st)
         else ((201, MessageService (js ''Servicio creado exitosamente'') r), st @ [r])))"
  by (simp add: createService_def save_def insertOne_def Let_def)

lemma updateService_found:
  "findById drv st i = Inr (Some r) \<Longrightarrow>
   updateService a drv now st i b =
     (if validate (assignFields drv b r) \<noteq> {#} then
        ((400, MessageErrors
                 (js (''Error de validaci'' @ [CHR 0xF3] @ ''n en actualizaci''
                    @ [CHR 0xF3] @ ''n''))
                 (image_mset (message drv) (validate (assignFields drv b r)))), st)
      else
        (let r' = preSave a drv
               (timestamps False (fst (assignFields drv b r) \<noteq> r) now
                  (fst (assignFields drv b r)))
         in ((200, MessageService (js ''Servicio actualizado exitosamente'') r'),
             updateOne r' st)))"
  by (simp add: updateService_def save_def Let_def)

subsection \<open>What a save changes\<close>

lemma preSave_fields:
  "ident (preSave a drv r) = ident r"
  "category (preSave a drv r) = category r"
  "price (preSave a drv r) = price r"
  "duration (preSave a drv r) = duration r"
  "status (preSave a drv r) = status r"
  "description (preSave a drv r) = description r"
  "clients (preSave a drv r) = clients r"
  "createdAt (preSave a drv r) = createdAt r"
  "updatedAt (preSave a drv r) = updatedAt r"
  by (cases a, simp_all add: capitalizeName_def split: option.splits)+

lemma timestamps_fields:
  "ident (timestamps n m now r) = ident r"
  "name (timestamps n m now r) = name r"
  "category (timestamps n m now r) = category r"
  "price (timestamps n m now r) = price r"
  "duration (timestamps n m now r) = duration r"
  "status (timestamps n m now r) = status r"
  "description (timestamps n m now r) = description r"
  "clients (timestamps n m now r) = clients r"
  by (simp_all add: timestamps_def)



lemma validate_no_pending:
  "validate (r, pend) = {#} \<Longrightarrow> p \<in> set businessFields \<Longrightarrow> map_of pend p = None"
  by (auto simp: validate_def pathErrors_def businessFields_def split: option.splits)

lemma validate_status:
  "validate (r, pend) = {#} \<Longrightarrow> firstError statusValidators (status r) = None"
  by (auto simp: validate_def pathErrors_def split: option.splits)

lemma castString_strVal: "castString drv (strVal v) = CastOk v"
  by (cases v) (simp_all add: strVal_def)

lemma castNumber_numVal: "castNumber drv (numVal v) = CastOk v"
  by (cases v) (simp_all add: numVal_def)

lemma pendingOf_None: "pendingOf c = None \<Longrightarrow> \<exists>x. c = CastOk x"
  by (cases c) (simp_all add: pendingOf_def)

subsection \<open>Reading the collection\<close>

lemma mostRecentFirst_sort: "mostRecentFirst (sortCreatedAtDesc rs)"
proof -
  have "sorted (map (\<lambda>r. - int (createdAt r)) (sortCreatedAtDesc rs))"
    unfolding sortCreatedAtDesc_def by (rule sorted_sort_key)
  then show ?thesis
    by (simp add: mostRecentFirst_def sorted_map)
qed

lemma mset_sortCreatedAtDesc: "mset (sortCreatedAtDesc rs) = mset rs"
  by (simp add: sortCreatedAtDesc_def)

lemma find_none: "find P xs = None \<longleftrightarrow> (\<forall>x\<in>set xs. \<not> P x)"
  by (induction xs) auto

lemma sample_ids:
  "castObjectId sampleDriver sampleId = Some sampleId"
  "castObjectId sampleDriver otherId = Some otherId"
  "castObjectId sampleDriver (js ''not-an-id'') = None"
  "sampleId \<noteq> otherId"
  by (simp_all add: sampleDriver_def sampleId_def otherId_def isHexDigit_def js_def)

text \<open>
  C5. \<open>getServiceById\<close> answers a malformed id with 400 and the message of an invalid
  id, echoing the id it received. It answers a well-formed id that no record has with
  404, again with the id. A well-formed id of a record gives 200 with that record. So
  the two failures are never confused.
\<close>

theorem getById_failures:
  "(castObjectId drv i = None \<longrightarrow>
      getServiceById drv st i =
        (400, MessageId (js (''ID de servicio inv'' @ [CHR 0xE1] @ ''lido'')) i))
   \<and> (\<forall>oid. castObjectId drv i = Some oid \<and> (\<forall>r\<in>set st. ident r \<noteq> oid) \<longrightarrow>
        getServiceById drv st i = (404, MessageId (js ''Servicio no encontrado'') i))
   \<and> (\<forall>oid r. castObjectId drv i = Some oid \<and> r \<in> set st \<and> ident r = oid \<longrightarrow>
        (\<exists>r'\<in>set st. ident r' = oid \<and> getServiceById drv st i = (200, ServiceDoc r')))"
proof (intro conjI allI impI)
  assume "castObjectId drv i = None"
  then show "getServiceById drv st i =
      (400, MessageId (js (''ID de servicio inv'' @ [CHR 0xE1] @ ''lido'')) i)"
    by (simp add: getServiceById_def findById_def)
next
  fix oid assume h: "castObjectId drv i = Some oid \<and> (\<forall>r\<in>set st. ident r \<noteq> oid)"
  then have "find (\<lambda>r. ident r = oid) st = None" by (simp add: find_none)
  with h show "getServiceById drv st i = (404, MessageId (js ''Servicio no encontrado'') i)"
    by (simp add: getServiceById_def findById_def)
next
  fix oid r assume h: "castObjectId drv i = Some oid \<and> r \<in> set st \<and> ident r = oid"
  then obtain r' where f: "find (\<lambda>r. ident r = oid) st = Some r'"
    by (cases "find (\<lambda>r. ident r = oid) st") (auto simp: find_none)
  then have "r' \<in> set st \<and> ident r' = oid"
    by (auto simp: find_Some_iff)
  with h f show "\<exists>r'\<in>set st. ident r' = oid \<and> getServiceById drv st i = (200, ServiceDoc r')"
    by (auto simp: getServiceById_def findById_def)
qed

theorem getById_failures_witness:
  "castObjectId sampleDriver (js ''not-an-id'') = None
   \<and> getServiceById sampleDriver [sampleService] (js ''not-an-id'') =
       (400, MessageId (js (''ID de servicio inv'' @ [CHR 0xE1] @ ''lido''))
          (js ''not-an-id''))
   \<and> castObjectId sampleDriver otherId = Some otherId
   \<and> ident sampleService \<noteq> otherId
   \<and> getServiceById sampleDriver [sampleService] otherId =
       (404, MessageId (js ''Servicio no encontrado'') otherId)
   \<and> getServiceById sampleDriver [sampleService] sampleId =
       (200, ServiceDoc sampleService)"
proof -
  have d: "\<forall>r\<in>set [sampleService]. ident r \<noteq> otherId"
    by (simp add: sampleService_def sample_ids)
  have e: "sampleService \<in> set [sampleService] \<and> ident sampleService = sampleId"
    by (simp add: sampleService_def)
  show ?thesis
    using getById_failures [of sampleDriver "js ''not-an-id''" "[sampleService]"]
      getById_failures [of sampleDriver otherId "[sampleService]"]
      getById_failures [of sampleDriver sampleId "[sampleService]"]
      sample_ids d e
    by auto
qed

text \<open>
  C6. A category outside the six of the schema gets 400 with the message of an invalid
  category, the list of the valid ones and the value received, and the handler sends no
  query to the store. A category of the list gets 200 with the category, the records of
  that category and their number, after one query.
\<close>

theorem invalid_category_no_query:
  "(c \<notin> set validCategories \<longrightarrow>
      getServicesByCategory st c =
        ((400, InvalidCategory
                 (js (''Categor'' @ [CHR 0xED] @ ''a inv'' @ [CHR 0xE1] @ ''lida''))
                 validCategories c), []))
   \<and> (c \<in> set validCategories \<longrightarrow>
        (\<exists>rs. getServicesByCategory st c =
                ((200, CategoryList c (length rs) rs), [Find (Some c)])
           \<and> mset rs = mset (filter (\<lambda>r. category r = Some c) st)))"
  by (simp add: getServicesByCategory_def Let_def mset_sortCreatedAtDesc)

theorem invalid_category_no_query_witness:
  "js ''Marketing'' \<notin> set validCategories
   \<and> getServicesByCategory [sampleService] (js ''Marketing'') =
        ((400, InvalidCategory
                 (js (''Categor'' @ [CHR 0xED] @ ''a inv'' @ [CHR 0xE1] @ ''lida''))
                 validCategories (js ''Marketing'')), [])
   \<and> js ''Digital'' \<in> set validCategories
   \<and> getServicesByCategory [sampleService] (js ''Digital'') =
        ((200, CategoryList (js ''Digital'') 1 [sampleService]),
         [Find (Some (js ''Digital''))])"
proof -
  have a: "js ''Marketing'' \<notin> set validCategories"
    by (simp add: validCategories_def js_def)
  have b: "js ''Digital'' \<in> set validCategories" by (simp add: validCategories_def)
  have c: "filter (\<lambda>r. category r = Some (js ''Digital'')) [sampleService] = [sampleService]"
    by (simp add: sampleService_def)
  show ?thesis
    using invalid_category_no_query [of "js ''Marketing''" "[sampleService]"]
      invalid_category_no_query [of "js ''Digital''" "[sampleService]"] a b c
    by auto
qed

text \<open>
  C7. The records that \<open>getAllServices\<close> returns are the records of the collection,
  ordered by creation time with the most recent first; and so are the records that
  \<open>getServicesByCategory\<close> returns for a valid category, among those of the category.
\<close>

theorem list_most_recent_first:
  "mostRecentFirst (servicesOf (getAllServices st))
   \<and> mset (servicesOf (getAllServices st)) = mset st
   \<and> (c \<in> set validCategories \<longrightarrow>
        mostRecentFirst (servicesOf (fst (getServicesByCategory st c)))
        \<and> mset (servicesOf (fst (getServicesByCategory st c)))
            = mset (filter (\<lambda>r. category r = Some c) st))"
  by (simp add: getAllServices_def getServicesByCategory_def servicesOf_def Let_def
      mostRecentFirst_sort mset_sortCreatedAtDesc)

theorem list_most_recent_first_witness:
  "servicesOf (getAllServices
       [sampleService, sampleService\<lparr>ident := otherId, createdAt := 2000\<rparr>])
     = [sampleService\<lparr>ident := otherId, createdAt := 2000\<rparr>, sampleService]
   \<and> mostRecentFirst (servicesOf (getAllServices
       [sampleService, sampleService\<lparr>ident := otherId, createdAt := 2000\<rparr>]))
   \<and> js ''Digital'' \<in> set validCategories
   \<and> mostRecentFirst (servicesOf (fst (getServicesByCategory
       [sampleService, sampleService\<lparr>ident := otherId, createdAt := 2000\<rparr>]
       (js ''Digital''))))"
proof -
  have a: "js ''Digital'' \<in> set validCategories" by (simp add: validCategories_def)
  have b: "servicesOf (getAllServices
       [sampleService, sampleService\<lparr>ident := otherId, createdAt := 2000\<rparr>])
     = [sampleService\<lparr>ident := otherId, createdAt := 2000\<rparr>, sampleService]"
    by (simp add: servicesOf_def getAllServices_def sortCreatedAtDesc_def sampleService_def)
  show ?thesis
    using list_most_recent_first
      [of "[sampleService, sampleService\<lparr>ident := otherId, createdAt := 2000\<rparr>]"
          "js ''Digital''"] a b
    by simp
qed

subsection \<open>Creating a record\<close>


text \<open>
  The rule of the specification for the duration asks more than the schema does, and
  the two notions agree on the other fields.
\<close>

lemma specDurationOk_durationOk: "specDurationOk drv b \<Longrightarrow> durationOk drv b"
  by (auto simp: specDurationOk_def durationOk_def trim_def split: cast.splits option.splits)

lemma spec_valid_is_valid: "specInvalidFields drv b = [] \<Longrightarrow> invalidFields drv b = []"
  using specDurationOk_durationOk [of drv b]
  by (simp add: specInvalidFields_def invalidFields_def split: if_splits)

lemma spec_differs_in_duration:
  "filter (\<lambda>p. p \<noteq> ''duration'') (specInvalidFields drv b)
     = filter (\<lambda>p. p \<noteq> ''duration'') (invalidFields drv b)"
  by (simp add: specInvalidFields_def invalidFields_def)

lemmas eval_defs =
  updateService_def createService_def findById_def save_def validate_def pathErrors_def
  assignFields_def newService_def set_defs emptyService_def js_or_def strVal_def numVal_def
  timestamps_def capitalizeName_def charAt_def slice_def
  trim_def isWhiteSpace_def updateOne_def insertOne_def Let_def js_def
  nameValidators_def categoryValidators_def priceValidators_def durationValidators_def
  statusValidators_def descriptionValidators_def clientsValidators_def
  requiredString_def requiredNumber_def maxlength_def minNumber_def enum_def
  validCategories_def validStatuses_def sampleDriver_def sampleUpperUnit_def isHexDigit_def
  sampleService_def sampleId_def otherId_def

lemmas ok_defs = invalidFields_def specInvalidFields_def nameOk_def categoryOk_def
  priceOk_def durationOk_def specDurationOk_def statusOk_def descriptionOk_def clientsOk_def







text \<open>
  C8. A create payload whose fields are all acceptable, under a fresh identifier, is
  stored: the answer is 201 with the record, which is added to the collection. When the
  payload has no status the record's status is \<open>Nuevo\<close>, and when it has no number of
  clients the record has 0 clients.
\<close>

theorem create_defaults:
  "invalidFields drv b = [] \<Longrightarrow> oid \<notin> set (map ident st) \<Longrightarrow>
   \<exists>r. createService a drv oid now st b =
          ((201, MessageService (js ''Servicio creado exitosamente'') r), st @ [r])
      \<and> (b ''status'' = Undefined \<longrightarrow> status r = Some (js ''Nuevo''))
      \<and> (b ''clients'' = Undefined \<longrightarrow> clients r = Some 0)"
proof -
  assume ok: "invalidFields drv b = []" and fresh: "oid \<notin> set (map ident st)"
  let ?r = "preSave a drv (timestamps True True now (fst (newService drv oid b)))"
  from ok have v: "validate (newService drv oid b) = {#}"
    by (simp add: validate_empty_iff)
  have i: "ident ?r = oid"
    by (simp add: preSave_fields timestamps_fields newService_eq)
  have c: "createService a drv oid now st b =
          ((201, MessageService (js ''Servicio creado exitosamente'') ?r), st @ [?r])"
    using v fresh i by (simp add: createService_cases Let_def)
  have s: "b ''status'' = Undefined \<longrightarrow> status ?r = Some (js ''Nuevo'')"
    by (simp add: preSave_fields timestamps_fields newService_eq js_or_def castValue_def)
  have k: "b ''clients'' = Undefined \<longrightarrow> clients ?r = Some 0"
    by (simp add: preSave_fields timestamps_fields newService_eq js_or_def castValue_def)
  from c s k show ?thesis by blast
qed

theorem create_defaults_witness:
  "invalidFields sampleDriver seoAudit = []
   \<and> sampleId \<notin> set (map ident [])
   \<and> seoAudit ''status'' = Undefined \<and> seoAudit ''clients'' = Undefined
   \<and> (\<exists>r. createService ExpressApp sampleDriver sampleId 1000 [] seoAudit =
          ((201, MessageService (js ''Servicio creado exitosamente'') r), [] @ [r])
        \<and> status r = Some (js ''Nuevo'') \<and> clients r = Some 0)"
proof -
  have i: "invalidFields sampleDriver seoAudit = []"
    by (simp add: ok_defs seoAudit_def sampleDriver_def trim_def isWhiteSpace_def
        validCategories_def js_def)
  have f: "sampleId \<notin> set (map ident ([] :: service list))" by simp
  have u: "seoAudit ''status'' = Undefined \<and> seoAudit ''clients'' = Undefined"
    by (simp add: seoAudit_def)
  show ?thesis
    using create_defaults [OF i f, of ExpressApp 1000] i u by auto
qed

text \<open>
  C10. \<open>createService\<close> reads the seven business fields of the payload and nothing
  else: two payloads that agree on them give the same document, the same answer and the
  same collection, whatever other keys they carry.
\<close>

theorem create_reads_seven_fields:
  "\<forall>k\<in>set businessFields. b1 k = b2 k \<Longrightarrow>
   newService drv oid b1 = newService drv oid b2
   \<and> createService a drv oid now st b1 = createService a drv oid now st b2"
  by (simp add: businessFields_def createService_def newService_def)

theorem create_reads_seven_fields_witness:
  "seoAuditExtra ''_id'' \<noteq> seoAudit ''_id''
   \<and> seoAuditExtra ''createdAt'' \<noteq> seoAudit ''createdAt''
   \<and> createService ExpressApp sampleDriver sampleId 1000 [] seoAudit
     = createService ExpressApp sampleDriver sampleId 1000 [] seoAuditExtra"
proof -
  have h: "\<forall>k\<in>set businessFields. seoAudit k = seoAuditExtra k"
    by (simp add: businessFields_def seoAuditExtra_def)
  have d: "seoAuditExtra ''_id'' \<noteq> seoAudit ''_id''
      \<and> seoAuditExtra ''createdAt'' \<noteq> seoAudit ''createdAt''"
    by (simp add: seoAuditExtra_def seoAudit_def)
  show ?thesis
    using create_reads_seven_fields
      [OF h, of sampleDriver sampleId ExpressApp 1000 "[]"] d
    by blast
qed

subsection \<open>Counting and rounding\<close>

lemma status_cases:
  "firstError statusValidators (status r) = None \<Longrightarrow>
   status r = Some (js ''Activo'') \<or> status r = Some (js ''Nuevo'')
   \<or> status r = Some (js ''Pausado'') \<or> status r = Some (js ''Inactivo'')"
  by (cases "status r")
     (auto simp: statusValidators_def requiredString_def enum_def validStatuses_def
       split: if_splits)

lemma status_distinct:
  "js ''Activo'' \<noteq> js ''Nuevo''" "js ''Activo'' \<noteq> js ''Pausado''"
  "js ''Activo'' \<noteq> js ''Inactivo''" "js ''Nuevo'' \<noteq> js ''Pausado''"
  "js ''Nuevo'' \<noteq> js ''Inactivo''" "js ''Pausado'' \<noteq> js ''Inactivo''"
  by (simp_all add: js_def)

lemma count_by_status:
  "statusesValid st \<Longrightarrow>
   countDocuments (\<lambda>r. True) st =
     countDocuments (\<lambda>r. status r = Some (js ''Activo'')) st
     + countDocuments (\<lambda>r. status r = Some (js ''Nuevo'')) st
     + countDocuments (\<lambda>r. status r = Some (js ''Pausado'')) st
     + countDocuments (\<lambda>r. status r = Some (js ''Inactivo'')) st"
proof (induction st)
  case Nil
  then show ?case by (simp add: countDocuments_def)
next
  case (Cons r st)
  then have v: "firstError statusValidators (status r) = None" and rest: "statusesValid st"
    by (simp_all add: statusesValid_def)
  from status_cases [OF v] Cons.IH [OF rest] status_distinct show ?case
    by (auto simp: countDocuments_def)
qed

lemma totalClients_sum:
  "firstOr0 (aggregateClients st) Some = sum_list (map (\<lambda>r. numberOr0 (clients r)) st)"
  by (cases st) (simp_all add: firstOr0_def aggregateClients_def)

lemma averagePrice_mean: "firstOr0 (aggregatePrices st) fst = meanPrice st"
  by (cases st) (simp_all add: firstOr0_def aggregatePrices_def meanPrice_def average_def Let_def)

lemma mathRound_0: "mathRound 0 = 0"
  by (simp add: mathRound_def floor_eq_iff)

lemma mathRound_nearest:
  "\<exists>k::int. mathRound x = of_int k \<and> \<bar>of_int k - x\<bar> \<le> 1 / 2"
proof -
  let ?k = "\<lfloor>x + 1 / 2\<rfloor>"
  have "of_int ?k \<le> x + 1 / 2" by (rule of_int_floor_le)
  moreover have "x + 1 / 2 < of_int ?k + 1"
    using floor_correct [of "x + 1 / 2"] by simp
  ultimately have "\<bar>of_int ?k - x\<bar> \<le> 1 / 2" by linarith
  then show ?thesis unfolding mathRound_def by blast
qed

subsection \<open>The snapshot of the statistics\<close>

text \<open>
  C2. Over a collection whose records have a status of the schema, the snapshot of
  \<open>getServiceStats\<close> has a total that is the number of records and the sum of the four
  counts by status; its number of clients is the sum of the clients of the records (a
  record without a number counts 0); on the empty collection the clients, the average,
  the minimum and the maximum price are 0; and the average price is an integer within
  one half of the mean of the prices.
\<close>

theorem stats_snapshot:
  "statusesValid st \<Longrightarrow>
   \<exists>s. getServiceStats now st = (200, StatsDoc s)
     \<and> totalServices s = length st
     \<and> totalServices s = activeServices s + newServices s + pausedServices s + inactiveServices s
     \<and> totalClients s = sum_list (map (\<lambda>r. numberOr0 (clients r)) st)
     \<and> (st = [] \<longrightarrow> totalClients s = 0 \<and> averagePrice s = 0 \<and> minPrice s = 0 \<and> maxPrice s = 0)
     \<and> (\<exists>k::int. averagePrice s = of_int k \<and> \<bar>of_int k - meanPrice st\<bar> \<le> 1 / 2)"
proof -
  assume v: "statusesValid st"
  have e: "st = [] \<longrightarrow> mathRound (firstOr0 (aggregatePrices st) fst) = 0
      \<and> firstOr0 (aggregatePrices st) (\<lambda>g. fst (snd g)) = 0
      \<and> firstOr0 (aggregatePrices st) (\<lambda>g. snd (snd g)) = 0
      \<and> firstOr0 (aggregateClients st) Some = 0"
    by (simp add: firstOr0_def aggregatePrices_def aggregateClients_def mathRound_0)
  have t: "countDocuments (\<lambda>r. True) st = length st" by (simp add: countDocuments_def)
  show ?thesis
    using count_by_status [OF v] totalClients_sum [of st] e t
      mathRound_nearest [of "meanPrice st"]
    by (simp add: getServiceStats_def Let_def averagePrice_mean)
qed

theorem stats_snapshot_witness:
  "statusesValid statsStore
   \<and> getServiceStats 5 statsStore =
       (200, StatsDoc
          \<lparr>totalServices = 2, activeServices = 1, newServices = 1, pausedServices = 0,
           inactiveServices = 0, totalClients = 10, totalCategories = 1,
           availableCategories = [js ''Digital''], averagePrice = 102, minPrice = 100,
           maxPrice = 103, lastUpdated = 5\<rparr>)
   \<and> meanPrice statsStore = 203 / 2
   \<and> statusesValid []
   \<and> getServiceStats 5 [] =
       (200, StatsDoc
          \<lparr>totalServices = 0, activeServices = 0, newServices = 0, pausedServices = 0,
           inactiveServices = 0, totalClients = 0, totalCategories = 0,
           availableCategories = [], averagePrice = 0, minPrice = 0,
           maxPrice = 0, lastUpdated = 5\<rparr>)"
proof -
  have v: "statusesValid statsStore"
    by (simp add: statusesValid_def statsStore_def sampleService_def statusValidators_def
        requiredString_def enum_def validStatuses_def js_def)
  have w: "statusesValid []" by (simp add: statusesValid_def)
  have g: "getServiceStats 5 statsStore =
       (200, StatsDoc
          \<lparr>totalServices = 2, activeServices = 1, newServices = 1, pausedServices = 0,
           inactiveServices = 0, totalClients = 10, totalCategories = 1,
           availableCategories = [js ''Digital''], averagePrice = 102, minPrice = 100,
           maxPrice = 103, lastUpdated = 5\<rparr>)"
    by (simp add: getServiceStats_def statsStore_def sampleService_def countDocuments_def
        aggregateClients_def aggregatePrices_def distinctCategories_def firstOr0_def
        numberOr0_def average_def mathRound_def List.map_filter_def Let_def js_def)
  have h: "getServiceStats 5 [] =
       (200, StatsDoc
          \<lparr>totalServices = 0, activeServices = 0, newServices = 0, pausedServices = 0,
           inactiveServices = 0, totalClients = 0, totalCategories = 0,
           availableCategories = [], averagePrice = 0, minPrice = 0,
           maxPrice = 0, lastUpdated = 5\<rparr>)"
    by (simp add: getServiceStats_def countDocuments_def
        aggregateClients_def aggregatePrices_def distinctCategories_def firstOr0_def
        mathRound_0 List.map_filter_def Let_def)
  have m: "meanPrice statsStore = 203 / 2"
    by (simp add: meanPrice_def statsStore_def sampleService_def List.map_filter_def Let_def)
  show ?thesis
    using stats_snapshot [OF v, of 5] stats_snapshot [OF w, of 5] v w g h m by simp
qed

subsection \<open>The document that an update builds\<close>

lemma assign_casts_ok:
  assumes "validate (assignFields drv b r) = {#}"
  shows "\<exists>v. castString drv (js_or (b ''name'') (strVal (name r))) = CastOk v"
    and "\<exists>v. castString drv (js_or (b ''category'') (strVal (category r))) = CastOk v"
    and "\<exists>v. castNumber drv
           (if b ''price'' \<noteq> Undefined then b ''price'' else numVal (price r)) = CastOk v"
    and "\<exists>v. castString drv (js_or (b ''duration'') (strVal (duration r))) = CastOk v"
    and "\<exists>v. castString drv (js_or (b ''status'') (strVal (status r))) = CastOk v"
    and "\<exists>v. castString drv (js_or (b ''description'') (strVal (description r))) = CastOk v"
    and "\<exists>v. castNumber drv
           (if b ''clients'' \<noteq> Undefined then b ''clients'' else numVal (clients r)) = CastOk v"
proof -
  obtain d pend where dp: "assignFields drv b r = (d, pend)" by (cases "assignFields drv b r")
  with assms have v: "validate (d, pend) = {#}" by simp
  have p: "pend = snd (assignFields drv b r)" by (simp add: dp)
  note n = validate_no_pending [OF v, unfolded p assignFields_eq snd_conv]
  show "\<exists>v. castString drv (js_or (b ''name'') (strVal (name r))) = CastOk v"
    using n [of "''name''"] by (simp only: pending_lookup businessFields_def)
      (simp add: pendingOf_None)
  show "\<exists>v. castString drv (js_or (b ''category'') (strVal (category r))) = CastOk v"
    using n [of "''category''"] by (simp only: pending_lookup businessFields_def)
      (simp add: pendingOf_None)
  show "\<exists>v. castNumber drv
           (if b ''price'' \<noteq> Undefined then b ''price'' else numVal (price r)) = CastOk v"
    using n [of "''price''"] by (simp only: pending_lookup businessFields_def)
      (simp add: pendingOf_None)
  show "\<exists>v. castString drv (js_or (b ''duration'') (strVal (duration r))) = CastOk v"
    using n [of "''duration''"] by (simp only: pending_lookup businessFields_def)
      (simp add: pendingOf_None)
  show "\<exists>v. castString drv (js_or (b ''status'') (strVal (status r))) = CastOk v"
    using n [of "''status''"] by (simp only: pending_lookup businessFields_def)
      (simp add: pendingOf_None)
  show "\<exists>v. castString drv (js_or (b ''description'') (strVal (description r))) = CastOk v"
    using n [of "''description''"] by (simp only: pending_lookup businessFields_def)
      (simp add: pendingOf_None)
  show "\<exists>v. castNumber drv
           (if b ''clients'' \<noteq> Undefined then b ''clients'' else numVal (clients r)) = CastOk v"
    using n [of "''clients''"] by (simp only: pending_lookup businessFields_def)
      (simp add: pendingOf_None)
qed


lemma updateOne_same:
  "distinct (map ident st) \<Longrightarrow> r \<in> set st \<Longrightarrow> updateOne r st = st"
proof -
  assume d: "distinct (map ident st)" and m: "r \<in> set st"
  from d have "inj_on ident (set st)" by (simp add: distinct_map)
  with m have "\<forall>x\<in>set st. (if ident x = ident r then r else x) = x"
    by (auto dest: inj_onD)
  then show ?thesis unfolding updateOne_def by (simp add: map_idI)
qed

lemma findById_mem: "findById drv st i = Inr (Some r) \<Longrightarrow> r \<in> set st"
  by (auto simp: findById_def find_Some_iff split: option.splits)

lemma findById_ident:
  "findById drv st i = Inr (Some r) \<Longrightarrow> castObjectId drv i = Some (ident r)"
  by (auto simp: findById_def find_Some_iff split: option.splits)

lemma assignFields_empty:
  "fst (assignFields drv emptyPayload r)
     = r\<lparr>name := map_option trim (name r), description := map_option trim (description r)\<rparr>"
  by (simp add: assignFields_eq emptyPayload_def js_or_def castString_strVal
      castNumber_numVal castValue_def trimmedValue_def)

lemma preSave_timestamps:
  "preSave a drv (timestamps False m now r)
     = (preSave a drv r)\<lparr>updatedAt := (if m then now else updatedAt r)\<rparr>"
  by (cases a) (simp_all add: timestamps_def capitalizeName_def split: option.splits)

lemma normalised_rewritten: "normalised a drv r \<Longrightarrow> rewritten a drv r = r"
  by (simp add: normalised_def rewritten_def)

lemma rewritten_fields:
  "ident (rewritten a drv r) = ident r"
  "category (rewritten a drv r) = category r"
  "price (rewritten a drv r) = price r"
  "duration (rewritten a drv r) = duration r"
  "status (rewritten a drv r) = status r"
  "description (rewritten a drv r) = map_option trim (description r)"
  "clients (rewritten a drv r) = clients r"
  "createdAt (rewritten a drv r) = createdAt r"
  "updatedAt (rewritten a drv r) = updatedAt r"
  by (simp_all add: rewritten_def preSave_fields)

subsection \<open>Updating a record\<close>



lemma rewritten_sample: "rewritten ExpressApp sampleDriver sampleService = sampleService"
  by (simp add: rewritten_def sampleService_def capitalizeName_def sampleDriver_def
      sampleUpperUnit_def charAt_def slice_def trim_def isWhiteSpace_def js_def)

lemma findById_sample:
  "findById sampleDriver [sampleService] sampleId = Inr (Some sampleService)"
  by (simp add: findById_def sample_ids sampleService_def)




text \<open>
  C9, as the code has it. An update with an empty payload writes the stored name and
  description again: trimmed, the name passed through the middleware of the
  application's schema. When the document so built fails validation the answer is 400
  and the collection is as it was. Otherwise the answer is 200 with a record that is
  the rewritten one but for \<open>updatedAt\<close>, and this record replaces the stored one. So
  for a record that the rewriting leaves as it is, as a save of the same application
  writes it, the record is unchanged but for \<open>updatedAt\<close>, and so is, when the
  identifiers are unique, every record of the collection.
\<close>

theorem update_empty_payload:
  assumes f: "findById drv st i = Inr (Some r)"
  shows "(validate (assignFields drv emptyPayload r) \<noteq> {#} \<longrightarrow>
            fst (fst (updateService a drv now st i emptyPayload)) = 400
            \<and> snd (updateService a drv now st i emptyPayload) = st)
       \<and> (validate (assignFields drv emptyPayload r) = {#} \<longrightarrow>
            (\<exists>r'. updateService a drv now st i emptyPayload =
                     ((200, MessageService (js ''Servicio actualizado exitosamente'') r'),
                      updateOne r' st)
                 \<and> sameExceptUpdatedAt (rewritten a drv r) r'
                 \<and> (rewritten a drv r = r \<longrightarrow> sameExceptUpdatedAt r r')))
       \<and> (rewritten a drv r = r \<longrightarrow> distinct (map ident st) \<longrightarrow>
            list_all2 sameExceptUpdatedAt st (snd (updateService a drv now st i emptyPayload)))"
proof -
  let ?d = "assignFields drv emptyPayload r"
  let ?r' = "preSave a drv (timestamps False (fst ?d \<noteq> r) now (fst ?d))"
  have rw: "preSave a drv (fst ?d) = rewritten a drv r"
    by (simp add: assignFields_empty rewritten_def)
  have ua: "updatedAt (fst ?d) = updatedAt r"
    by (simp add: assignFields_empty)
  have r': "?r' = (rewritten a drv r)\<lparr>updatedAt := (if fst ?d \<noteq> r then now else updatedAt r)\<rparr>"
    by (simp only: preSave_timestamps rw ua)
  have s: "sameExceptUpdatedAt (rewritten a drv r) ?r'"
    unfolding r' by (simp add: sameExceptUpdatedAt_def rewritten_fields)
  have 1: "validate ?d \<noteq> {#} \<longrightarrow>
            fst (fst (updateService a drv now st i emptyPayload)) = 400
            \<and> snd (updateService a drv now st i emptyPayload) = st"
    by (simp add: updateService_found [OF f])
  have 2: "validate ?d = {#} \<longrightarrow>
            (\<exists>r'. updateService a drv now st i emptyPayload =
                     ((200, MessageService (js ''Servicio actualizado exitosamente'') r'),
                      updateOne r' st)
                 \<and> sameExceptUpdatedAt (rewritten a drv r) r'
                 \<and> (rewritten a drv r = r \<longrightarrow> sameExceptUpdatedAt r r'))"
  proof
    assume v: "validate ?d = {#}"
    have "updateService a drv now st i emptyPayload =
        ((200, MessageService (js ''Servicio actualizado exitosamente'') ?r'), updateOne ?r' st)"
      using v by (simp add: updateService_found [OF f] Let_def)
    moreover have "rewritten a drv r = r \<longrightarrow> sameExceptUpdatedAt r ?r'"
      using s by auto
    ultimately show "\<exists>r'. updateService a drv now st i emptyPayload =
                     ((200, MessageService (js ''Servicio actualizado exitosamente'') r'),
                      updateOne r' st)
                 \<and> sameExceptUpdatedAt (rewritten a drv r) r'
                 \<and> (rewritten a drv r = r \<longrightarrow> sameExceptUpdatedAt r r')"
      using s by blast
  qed
  have 3: "rewritten a drv r = r \<longrightarrow> distinct (map ident st) \<longrightarrow>
            list_all2 sameExceptUpdatedAt st (snd (updateService a drv now st i emptyPayload))"
  proof (intro impI)
    assume e: "rewritten a drv r = r" and d: "distinct (map ident st)"
    have refl: "list_all2 sameExceptUpdatedAt st st"
      by (simp add: list_all2_same sameExceptUpdatedAt_def)
    from d have inj: "inj_on ident (set st)" by (simp add: distinct_map)
    have m: "r \<in> set st" by (rule findById_mem [OF f])
    from s e have sr: "sameExceptUpdatedAt r ?r'" by simp
    have ir: "ident ?r' = ident r"
      by (simp add: preSave_fields timestamps_fields assignFields_empty)
    have "list_all2 sameExceptUpdatedAt st (updateOne ?r' st)"
      unfolding updateOne_def list_all2_map2
    proof (rule list_all2_all_nthI [OF refl [THEN list_all2_lengthD]])
      fix n assume "n < length st"
      then have x: "st ! n \<in> set st" by simp
      show "sameExceptUpdatedAt (st ! n) (if ident (st ! n) = ident ?r' then ?r' else st ! n)"
      proof (cases "ident (st ! n) = ident ?r'")
        case True
        with ir inj x m have "st ! n = r" by (auto dest: inj_onD)
        with True sr show ?thesis by simp
      next
        case False
        then show ?thesis by (simp add: sameExceptUpdatedAt_def)
      qed
    qed
    then show "list_all2 sameExceptUpdatedAt st
        (snd (updateService a drv now st i emptyPayload))"
      using refl by (simp add: updateService_found [OF f] Let_def)
  qed
  from 1 2 3 show ?thesis by blast
qed


lemma findById_legacy:
  "findById sampleDriver [legacyService] sampleId = Inr (Some legacyService)"
  by (simp add: findById_def sample_ids legacyService_def sampleService_def)

theorem update_empty_payload_witness:
  "findById sampleDriver [sampleService] sampleId = Inr (Some sampleService)
   \<and> rewritten ExpressApp sampleDriver sampleService = sampleService
   \<and> distinct (map ident [sampleService])
   \<and> validate (assignFields sampleDriver emptyPayload sampleService) = {#}
   \<and> updateService ExpressApp sampleDriver 2000 [sampleService] sampleId emptyPayload =
        ((200, MessageService (js ''Servicio actualizado exitosamente'') sampleService),
         [sampleService])
   \<and> (\<exists>r'. updateService ExpressApp sampleDriver 2000 [sampleService] sampleId emptyPayload =
          ((200, MessageService (js ''Servicio actualizado exitosamente'') r'),
           updateOne r' [sampleService])
        \<and> sameExceptUpdatedAt sampleService r')
   \<and> list_all2 sameExceptUpdatedAt [sampleService]
        (snd (updateService ExpressApp sampleDriver 2000 [sampleService] sampleId
           emptyPayload))
   \<and> findById sampleDriver [legacyService] sampleId = Inr (Some legacyService)
   \<and> validate (assignFields sampleDriver emptyPayload legacyService) \<noteq> {#}
   \<and> fst (fst (updateService ExpressApp sampleDriver 2000 [legacyService] sampleId
        emptyPayload)) = 400
   \<and> snd (updateService ExpressApp sampleDriver 2000 [legacyService] sampleId emptyPayload)
        = [legacyService]"
proof -
  have d: "distinct (map ident [sampleService])" by simp
  have v: "validate (assignFields sampleDriver emptyPayload sampleService) = {#}"
    by (simp add: eval_defs emptyPayload_def)
  have e: "updateService ExpressApp sampleDriver 2000 [sampleService] sampleId emptyPayload =
        ((200, MessageService (js ''Servicio actualizado exitosamente'') sampleService),
         [sampleService])"
    by (simp add: eval_defs emptyPayload_def)
  have w: "validate (assignFields sampleDriver emptyPayload legacyService) \<noteq> {#}"
    by (simp add: eval_defs emptyPayload_def legacyService_def)
  show ?thesis
    using update_empty_payload [OF findById_sample, of ExpressApp 2000]
      update_empty_payload [OF findById_legacy, of ExpressApp 2000]
      findById_sample findById_legacy rewritten_sample d v e w
    by simp
qed

text \<open>
  C9, as it is stated, fails for a record that the serverless application has stored:
  its name is as sent, and an update of the Express application with an empty payload
  answers 200 with the first character of the name in upper case.
\<close>

theorem update_empty_renames_counterexample:
  "findById sampleDriver [seoAuditInline] sampleId = Inr (Some seoAuditInline)
   \<and> name seoAuditInline = Some (js ''seo audit'')
   \<and> fst (fst (updateService ExpressApp sampleDriver 2000 [seoAuditInline] sampleId
        emptyPayload)) = 200
   \<and> map_option name
        (recordOf (fst (updateService ExpressApp sampleDriver 2000 [seoAuditInline] sampleId
           emptyPayload)))
      = Some (Some (js ''Seo audit''))
   \<and> map (\<lambda>r. name r)
        (snd (updateService ExpressApp sampleDriver 2000 [seoAuditInline] sampleId
           emptyPayload))
      = [Some (js ''Seo audit'')]"
proof -
  have a: "findById sampleDriver [seoAuditInline] sampleId = Inr (Some seoAuditInline)"
    by (simp add: findById_def sample_ids seoAuditInline_def)
  have b: "name seoAuditInline = Some (js ''seo audit'')" by (simp add: seoAuditInline_def)
  have c: "updateService ExpressApp sampleDriver 2000 [seoAuditInline] sampleId emptyPayload
      = ((200, MessageService (js ''Servicio actualizado exitosamente'')
            (seoAuditInline\<lparr>name := Some (js ''Seo audit'')\<rparr>)),
         [seoAuditInline\<lparr>name := Some (js ''Seo audit'')\<rparr>])"
    by (simp add: eval_defs emptyPayload_def seoAuditInline_def)
  from a b show ?thesis
    by (simp add: c recordOf_def)
qed

subsection \<open>The name on a write\<close>

text \<open>
  In the Express application a record that is created carries the name of the payload,
  trimmed, with its first code unit put in upper case and the others unchanged.
\<close>

lemma express_create_capitalises:
  assumes "createService ExpressApp drv oid now st b = ((201, MessageService m r), st')"
  shows "\<exists>s c cs. castString drv (b ''name'') = CastOk (Some s) \<and> trim s = c # cs
       \<and> name r = Some (toUpperCase drv [c] @ cs)"
proof -
  let ?d = "newService drv oid b"
  from assms have v: "validate ?d = {#}"
    and r: "r = preSave ExpressApp drv (timestamps True True now (fst ?d))"
    by (auto simp: createService_cases Let_def split: if_splits)
  from v have "invalidFields drv b = []" by (simp add: validate_empty_iff)
  then have "nameOk drv b" by (simp add: invalidFields_def split: if_splits)
  then obtain s where s: "castString drv (b ''name'') = CastOk (Some s)" and t: "trim s \<noteq> []"
    by (auto simp: nameOk_def split: cast.splits option.splits)
  from t obtain c cs where cs: "trim s = c # cs" by (cases "trim s") auto
  have "name r = Some (toUpperCase drv [c] @ cs)"
    unfolding r
    by (simp add: newService_eq timestamps_def capitalizeName_def s cs charAt_def slice_def
        trimmedValue_def)
  with s cs show ?thesis by simp
qed

text \<open>
  C3 fails in the serverless application, whose inline schema has no middleware: the
  payload of the scenario is stored with the name \<open>seo audit\<close>, as sent.
\<close>

theorem inline_create_keeps_name:
  "createService InlineApp sampleDriver sampleId 1000 [] seoAudit =
     ((201, MessageService (js ''Servicio creado exitosamente'') seoAuditInline),
      [seoAuditInline])
   \<and> name seoAuditInline = Some (js ''seo audit'')
   \<and> createService ExpressApp sampleDriver sampleId 1000 [] seoAudit =
     ((201, MessageService (js ''Servicio creado exitosamente'')
         (seoAuditInline\<lparr>name := Some (js ''Seo audit'')\<rparr>)),
      [seoAuditInline\<lparr>name := Some (js ''Seo audit'')\<rparr>])"
proof -
  have a: "createService InlineApp sampleDriver sampleId 1000 [] seoAudit =
     ((201, MessageService (js ''Servicio creado exitosamente'') seoAuditInline),
      [seoAuditInline])"
    by (simp add: eval_defs seoAudit_def seoAuditInline_def)
  have b: "name seoAuditInline = Some (js ''seo audit'')" by (simp add: seoAuditInline_def)
  have c: "createService ExpressApp sampleDriver sampleId 1000 [] seoAudit =
     ((201, MessageService (js ''Servicio creado exitosamente'')
         (seoAuditInline\<lparr>name := Some (js ''Seo audit'')\<rparr>)),
      [seoAuditInline\<lparr>name := Some (js ''Seo audit'')\<rparr>])"
    by (simp add: eval_defs seoAudit_def seoAuditInline_def)
  from a b c show ?thesis by blast
qed

subsection \<open>The collection that the handlers leave\<close>

text \<open>
  A record that \<open>createService\<close> stores has a status of the schema, and its identifier
  is new in the collection; a record that \<open>updateService\<close> stores has a status of the
  schema and takes the place of the old one. This holds in both applications and for
  every driver.
\<close>

lemma create_saved:
  assumes "createService a drv oid now st b = ((201, MessageService m r), st')"
  shows "firstError statusValidators (status r) = None
       \<and> st' = st @ [r] \<and> ident r \<notin> set (map ident st)"
proof -
  let ?d = "newService drv oid b"
  from assms have v: "validate (fst ?d, snd ?d) = {#}"
    and r: "r = preSave a drv (timestamps True True now (fst ?d))"
    and s: "st' = st @ [r]" and f: "ident r \<notin> set (map ident st)"
    by (auto simp: createService_cases Let_def split: if_splits)
  have "firstError statusValidators (status r) = None"
    unfolding r using validate_status [OF v] by (simp add: preSave_fields timestamps_fields)
  with s f show ?thesis by simp
qed

lemma update_saved:
  assumes f: "findById drv st i = Inr (Some r0)"
    and u: "updateService a drv now st i b = ((200, MessageService m r), st')"
  shows "firstError statusValidators (status r) = None
       \<and> st' = updateOne r st \<and> ident r = ident r0"
proof -
  let ?d = "assignFields drv b r0"
  from u have v: "validate (fst ?d, snd ?d) = {#}"
    and r: "r = preSave a drv (timestamps False (fst ?d \<noteq> r0) now (fst ?d))"
    and s: "st' = updateOne r st"
    by (auto simp: updateService_found [OF f] Let_def split: if_splits)
  have i: "ident r = ident r0"
    unfolding r by (simp add: preSave_fields timestamps_fields assignFields_eq)
  have "firstError statusValidators (status r) = None"
    unfolding r using validate_status [OF v] by (simp add: preSave_fields timestamps_fields)
  with s i show ?thesis by simp
qed

lemma ident_updateOne: "map ident (updateOne r st) = map ident st"
  by (induction st) (simp_all add: updateOne_def)

lemma createService_store:
  "snd (createService a drv oid now st b) = st
   \<or> (\<exists>m r. createService a drv oid now st b = ((201, MessageService m r), st @ [r]))"
  by (simp add: createService_cases Let_def)

lemma updateService_store:
  "snd (updateService a drv now st i b) = st
   \<or> (\<exists>m r r0. findById drv st i = Inr (Some r0)
        \<and> updateService a drv now st i b = ((200, MessageService m r), updateOne r st))"
proof (cases "findById drv st i")
  case (Inl e)
  then show ?thesis by (cases e) (simp_all add: updateService_def)
next
  case (Inr found)
  show ?thesis
  proof (cases found)
    case None
    with Inr show ?thesis by (simp add: updateService_def)
  next
    case (Some r0)
    with Inr have f: "findById drv st i = Inr (Some r0)" by simp
    show ?thesis by (simp add: updateService_found [OF f] Let_def f)
  qed
qed

text \<open>
  So every collection that \<open>createService\<close> and \<open>updateService\<close> build from the
  empty one has records with a status of the schema and distinct identifiers: what the
  theorem on the statistics assumes of the collection holds of the collections of both
  applications.
\<close>

lemma statusesValid_empty: "statusesValid [] \<and> distinct (map ident [])"
  by (simp add: statusesValid_def)

lemma statusesValid_create:
  assumes s: "statusesValid st \<and> distinct (map ident st)"
  shows "statusesValid (snd (createService a drv oid now st b))
       \<and> distinct (map ident (snd (createService a drv oid now st b)))"
  using createService_store [of a drv oid now st b]
proof
  assume "snd (createService a drv oid now st b) = st"
  with s show ?thesis by simp
next
  assume "\<exists>m r. createService a drv oid now st b = ((201, MessageService m r), st @ [r])"
  then obtain m r where c: "createService a drv oid now st b
      = ((201, MessageService m r), st @ [r])" by blast
  from create_saved [OF c] s c show ?thesis by (simp add: statusesValid_def)
qed

lemma statusesValid_update:
  assumes s: "statusesValid st \<and> distinct (map ident st)"
  shows "statusesValid (snd (updateService a drv now st i b))
       \<and> distinct (map ident (snd (updateService a drv now st i b)))"
  using updateService_store [of a drv now st i b]
proof
  assume "snd (updateService a drv now st i b) = st"
  with s show ?thesis by simp
next
  assume "\<exists>m r r0. findById drv st i = Inr (Some r0)
        \<and> updateService a drv now st i b = ((200, MessageService m r), updateOne r st)"
  then obtain m r r0 where f: "findById drv st i = Inr (Some r0)"
    and u: "updateService a drv now st i b = ((200, MessageService m r), updateOne r st)"
    by blast
  from update_saved [OF f u] have v: "firstError statusValidators (status r) = None" by simp
  from s v have "statusesValid (updateOne r st)"
    by (auto simp: statusesValid_def updateOne_def list_all_iff)
  with s u show ?thesis by (simp add: ident_updateOne)
qed

subsection \<open>Records that a save leaves\<close>

lemma last_dropWhile_rev:
  assumes "t \<noteq> []" "\<not> P (hd t)"
  shows "last (dropWhile P (rev t)) = hd t"
proof -
  from assms obtain x xs where t: "t = x # xs" and x: "\<not> P x" by (cases t) auto
  have "dropWhile P (rev xs @ x # []) = dropWhile P (rev xs) @ x # []"
    using x by (rule dropWhile_append3)
  then show ?thesis by (simp add: t)
qed

lemma trim_ends:
  assumes "trim s \<noteq> []"
  shows "\<not> isWhiteSpace (hd (trim s)) \<and> \<not> isWhiteSpace (last (trim s))"
proof -
  let ?t = "dropWhile isWhiteSpace s"
  let ?u = "dropWhile isWhiteSpace (rev ?t)"
  from assms have u: "?u \<noteq> []" by (simp add: trim_def)
  then have t: "?t \<noteq> []" by (metis dropWhile.simps(1) rev.simps(1))
  have "last (trim s) = hd ?u" unfolding trim_def by (rule last_rev)
  with hd_dropWhile [OF u] have l: "\<not> isWhiteSpace (last (trim s))" by simp
  have h: "\<not> isWhiteSpace (hd ?t)" by (rule hd_dropWhile [OF t])
  have "hd (trim s) = last ?u" unfolding trim_def by (rule hd_rev)
  also have "\<dots> = hd ?t" using t h by (rule last_dropWhile_rev)
  finally show ?thesis using h l by simp
qed

lemma trim_fix:
  assumes "s \<noteq> []" "\<not> isWhiteSpace (hd s)" "\<not> isWhiteSpace (last s)"
  shows "trim s = s"
proof -
  from assms have a: "dropWhile isWhiteSpace s = s" by (simp add: dropWhile_eq_self_iff)
  from assms have "dropWhile isWhiteSpace (rev s) = rev s"
    by (simp add: dropWhile_eq_self_iff hd_rev)
  with a show ?thesis by (simp add: trim_def)
qed

lemma trim_idem: "trim (trim s) = trim s"
proof (cases "trim s = []")
  case True
  have "trim [] = []" by (simp add: trim_def)
  with True show ?thesis by simp
next
  case False
  from trim_ends [OF False] False show ?thesis by (simp add: trim_fix)
qed

lemma trimmed_twice: "map_option trim (map_option trim v) = map_option trim v"
  by (cases v) (simp_all add: trim_idem)

lemma trimmedValue_trimmed:
  "map_option trim (trimmedValue None c) = trimmedValue None c"
  by (cases c) (simp_all add: trimmedValue_def trimmed_twice)

lemma capitalizeName_Cons:
  "name r = Some (c # cs) \<Longrightarrow>
   capitalizeName drv r = r\<lparr>name := Some (toUpperCase drv [c] @ cs)\<rparr>"
  by (simp add: capitalizeName_def charAt_def slice_def)

lemma upperStable_nonempty: "upperStable drv \<Longrightarrow> toUpperCase drv [c] \<noteq> []"
  by (simp add: upperStable_def)

lemma upperStable_not_ws:
  "upperStable drv \<Longrightarrow> \<not> isWhiteSpace c \<Longrightarrow> x \<in> set (toUpperCase drv [c]) \<Longrightarrow>
   \<not> isWhiteSpace x"
  by (simp add: upperStable_def)

lemma upperStable_hd:
  "upperStable drv \<Longrightarrow>
   toUpperCase drv [hd (toUpperCase drv [c])] = [hd (toUpperCase drv [c])]"
  by (simp add: upperStable_def)

lemma capitalizeName_idem:
  assumes st: "upperStable drv"
  shows "capitalizeName drv (capitalizeName drv r) = capitalizeName drv r"
proof (cases "name r")
  case None
  then show ?thesis by (simp add: capitalizeName_def)
next
  case (Some n)
  show ?thesis
  proof (cases n)
    case Nil
    with Some show ?thesis by (simp add: capitalizeName_def)
  next
    case (Cons c cs)
    obtain u us where u: "toUpperCase drv [c] = u # us"
      using upperStable_nonempty [OF st, of c] by (cases "toUpperCase drv [c]") auto
    have uu: "toUpperCase drv [u] = [u]" using upperStable_hd [OF st, of c] by (simp add: u)
    from Some Cons have 1: "capitalizeName drv r = r\<lparr>name := Some (u # us @ cs)\<rparr>"
      by (simp add: capitalizeName_Cons u)
    have "capitalizeName drv (r\<lparr>name := Some (u # us @ cs)\<rparr>)
        = r\<lparr>name := Some (u # us @ cs)\<rparr>"
      by (simp add: capitalizeName_Cons [of _ u "us @ cs"] uu)
    with 1 show ?thesis by simp
  qed
qed

lemma capitalize_trimmed:
  assumes st: "upperStable drv" and tr: "trim (c # cs) = c # cs"
  shows "trim (toUpperCase drv [c] @ cs) = toUpperCase drv [c] @ cs"
proof -
  have ne: "trim (c # cs) \<noteq> []" using tr by simp
  from trim_ends [OF ne] tr
  have c: "\<not> isWhiteSpace c" and l: "\<not> isWhiteSpace (last (c # cs))" by simp_all
  obtain u us where u: "toUpperCase drv [c] = u # us"
    using upperStable_nonempty [OF st, of c] by (cases "toUpperCase drv [c]") auto
  have all: "\<And>x. x \<in> set (u # us) \<Longrightarrow> \<not> isWhiteSpace x"
    using upperStable_not_ws [OF st c] by (simp add: u)
  have h: "\<not> isWhiteSpace (hd (u # us @ cs))" using all by simp
  have "\<not> isWhiteSpace (last (u # us @ cs))"
  proof (cases "cs = []")
    case True
    have "last (u # us) \<in> set (u # us)" by (rule last_in_set) simp
    with all True show ?thesis by simp
  next
    case False
    with l show ?thesis by simp
  qed
  with h have "trim (u # us @ cs) = u # us @ cs" by (intro trim_fix) simp_all
  then show ?thesis by (simp add: u)
qed

lemma preSave_idem:
  "upperStable drv \<Longrightarrow> preSave a drv (preSave a drv r) = preSave a drv r"
  by (cases a) (simp_all add: capitalizeName_idem)

lemma preSave_name_trimmed:
  assumes st: "upperStable drv" and tr: "map_option trim (name r) = name r"
  shows "map_option trim (name (preSave a drv r)) = name (preSave a drv r)"
proof (cases a)
  case InlineApp
  with tr show ?thesis by simp
next
  case ExpressApp
  show ?thesis
  proof (cases "name r")
    case None
    with ExpressApp show ?thesis by (simp add: capitalizeName_def)
  next
    case (Some n)
    show ?thesis
    proof (cases n)
      case Nil
      with Some ExpressApp tr show ?thesis by (simp add: capitalizeName_def)
    next
      case (Cons c cs)
      with Some tr have "trim (c # cs) = c # cs" by simp
      from capitalize_trimmed [OF st this] Some Cons ExpressApp show ?thesis
        by (simp add: capitalizeName_Cons)
    qed
  qed
qed

lemma written_normalised:
  assumes st: "upperStable drv"
    and n: "map_option trim (name x) = name x"
    and d: "map_option trim (description x) = description x"
  shows "normalised a drv (preSave a drv (timestamps isNew m now x))"
proof -
  let ?y = "timestamps isNew m now x"
  have "map_option trim (name ?y) = name ?y" using n by (simp add: timestamps_fields)
  then have 1: "map_option trim (name (preSave a drv ?y)) = name (preSave a drv ?y)"
    by (rule preSave_name_trimmed [OF st])
  have 2: "map_option trim (description (preSave a drv ?y)) = description (preSave a drv ?y)"
    using d by (simp add: preSave_fields timestamps_fields)
  from 1 2 show ?thesis by (simp add: normalised_def preSave_idem [OF st])
qed

text \<open>
  With a \<^verbatim>\<open>toUpperCase\<close> that is stable in this sense, a record that \<open>createService\<close>
  or \<open>updateService\<close> stores is one that a rewriting leaves as it is, and the two
  handlers keep a collection of such records so.
\<close>

lemma create_normalised:
  assumes st: "upperStable drv"
    and c: "createService a drv oid now st0 b = ((201, MessageService m r), st')"
  shows "normalised a drv r"
proof -
  let ?d = "newService drv oid b"
  from c have r: "r = preSave a drv (timestamps True True now (fst ?d))"
    by (auto simp: createService_cases Let_def split: if_splits)
  have n: "map_option trim (name (fst ?d)) = name (fst ?d)"
    by (simp add: newService_eq trimmedValue_trimmed)
  have d: "map_option trim (description (fst ?d)) = description (fst ?d)"
    by (simp add: newService_eq trimmedValue_trimmed)
  from written_normalised [OF st n d, of a True True now] r show ?thesis by simp
qed

lemma update_normalised:
  assumes st: "upperStable drv"
    and f: "findById drv st0 i = Inr (Some r0)"
    and u: "updateService a drv now st0 i b = ((200, MessageService m r), st')"
  shows "normalised a drv r"
proof -
  let ?d = "assignFields drv b r0"
  from u have v: "validate ?d = {#}"
    and r: "r = preSave a drv (timestamps False (fst ?d \<noteq> r0) now (fst ?d))"
    by (auto simp: updateService_found [OF f] Let_def split: if_splits)
  note ok = assign_casts_ok [OF v]
  from ok(1) obtain v1 where c1:
    "castString drv (js_or (b ''name'') (strVal (name r0))) = CastOk v1" by blast
  from ok(6) obtain v6 where c6:
    "castString drv (js_or (b ''description'') (strVal (description r0))) = CastOk v6" by blast
  have n: "map_option trim (name (fst ?d)) = name (fst ?d)"
    by (simp add: assignFields_eq c1 trimmedValue_def trimmed_twice)
  have d: "map_option trim (description (fst ?d)) = description (fst ?d)"
    by (simp add: assignFields_eq c6 trimmedValue_def trimmed_twice)
  from written_normalised [OF st n d, of a False "fst ?d \<noteq> r0" now] r show ?thesis by simp
qed

lemma savedStore_empty: "savedStore a drv []"
  by (simp add: savedStore_def statusesValid_def)

lemma savedStore_create:
  assumes st: "upperStable drv" and s: "savedStore a drv st0"
  shows "savedStore a drv (snd (createService a drv oid now st0 b))"
proof -
  from s have sv: "statusesValid st0 \<and> distinct (map ident st0)"
    by (simp add: savedStore_def)
  note k = statusesValid_create [OF sv, of a drv oid now b]
  have "list_all (normalised a drv) (snd (createService a drv oid now st0 b))"
    using createService_store [of a drv oid now st0 b]
  proof
    assume "snd (createService a drv oid now st0 b) = st0"
    with s show ?thesis by (simp add: savedStore_def)
  next
    assume "\<exists>m r. createService a drv oid now st0 b = ((201, MessageService m r), st0 @ [r])"
    then obtain m r where c: "createService a drv oid now st0 b
        = ((201, MessageService m r), st0 @ [r])" by blast
    from create_normalised [OF st c] s c show ?thesis by (simp add: savedStore_def)
  qed
  with k show ?thesis by (simp add: savedStore_def)
qed

lemma savedStore_update:
  assumes st: "upperStable drv" and s: "savedStore a drv st0"
  shows "savedStore a drv (snd (updateService a drv now st0 i b))"
proof -
  from s have sv: "statusesValid st0 \<and> distinct (map ident st0)"
    by (simp add: savedStore_def)
  note k = statusesValid_update [OF sv, of a drv now i b]
  have "list_all (normalised a drv) (snd (updateService a drv now st0 i b))"
    using updateService_store [of a drv now st0 i b]
  proof
    assume "snd (updateService a drv now st0 i b) = st0"
    with s show ?thesis by (simp add: savedStore_def)
  next
    assume "\<exists>m r r0. findById drv st0 i = Inr (Some r0)
        \<and> updateService a drv now st0 i b = ((200, MessageService m r), updateOne r st0)"
    then obtain m r r0 where f: "findById drv st0 i = Inr (Some r0)"
      and u: "updateService a drv now st0 i b = ((200, MessageService m r), updateOne r st0)"
      by blast
    from update_normalised [OF st f u] s have "list_all (normalised a drv) (updateOne r st0)"
      by (auto simp: savedStore_def updateOne_def list_all_iff)
    with u show ?thesis by simp
  qed
  with k show ?thesis by (simp add: savedStore_def)
qed

lemma savedStore_rewritten:
  "savedStore a drv st \<Longrightarrow> findById drv st i = Inr (Some r) \<Longrightarrow>
   rewritten a drv r = r \<and> distinct (map ident st)"
  using findById_mem [of drv st i r]
  by (auto simp: savedStore_def list_all_iff normalised_rewritten)

text \<open>The example driver's \<^verbatim>\<open>toUpperCase\<close> is stable.\<close>

lemma sampleUpperUnit_stable:
  "sampleUpperUnit c \<noteq> []"
  "\<not> isWhiteSpace c \<Longrightarrow> x \<in> set (sampleUpperUnit c) \<Longrightarrow> \<not> isWhiteSpace x"
  "sampleUpperUnit (hd (sampleUpperUnit c)) = [hd (sampleUpperUnit c)]"
  by (auto simp: sampleUpperUnit_def isWhiteSpace_def split: if_splits)

lemma upperStable_sample: "upperStable sampleDriver"
  using sampleUpperUnit_stable by (simp add: upperStable_def sampleDriver_def)

end
